theory Spec2Isabelle
  imports Complex_Main
begin

section \<open>Numbers and vectors\<close>

text \<open>
  JavaScript numbers are idealised as real numbers, and their arithmetic is exact; the
  rounding of IEEE doubles is added in the section on \<^verbatim>\<open>updateExplodedView\<close> in double
  precision.  Infinities and NaN are outside this development.  A \<^verbatim>\<open>THREE.Vector3\<close> is a
  value with three coordinates.  Vector objects are never shared between two fields in
  the repository (models.js gives every part a fresh \<^verbatim>\<open>clone()\<close> or
  \<^verbatim>\<open>new THREE.Vector3\<close>), so a vector is modelled by value.
\<close>

datatype vec3 = Vector3 (vx: real) (vy: real) (vz: real)

text \<open>\<^verbatim>\<open>Vector3.add(v)\<close> of three.js: coordinate-wise sum.\<close>

definition v3_add :: "vec3 \<Rightarrow> vec3 \<Rightarrow> vec3" where
  "v3_add a v = Vector3 (vx a + vx v) (vy a + vy v) (vz a + vz v)"

text \<open>
  \<^verbatim>\<open>Vector3.lerpVectors(v1, v2, alpha)\<close> of three.js:
  \<^verbatim>\<open>this.x = v1.x + (v2.x - v1.x) * alpha\<close>, and the same for y and z.
\<close>

definition lerpVectors :: "vec3 \<Rightarrow> vec3 \<Rightarrow> real \<Rightarrow> vec3" where
  "lerpVectors v1 v2 alpha =
     Vector3 (vx v1 + (vx v2 - vx v1) * alpha)
             (vy v1 + (vy v2 - vy v1) * alpha)
             (vz v1 + (vz v2 - vz v1) * alpha)"

text \<open>Vector difference and scaling, used only to state properties.\<close>

definition v3_sub :: "vec3 \<Rightarrow> vec3 \<Rightarrow> vec3" where
  "v3_sub a v = Vector3 (vx a - vx v) (vy a - vy v) (vz a - vz v)"

definition v3_scale :: "vec3 \<Rightarrow> real \<Rightarrow> vec3" where
  "v3_scale a k = Vector3 (vx a * k) (vy a * k) (vz a * k)"


section \<open>Scene graph\<close>

text \<open>
  A material carries the two fields the fades write (\<^verbatim>\<open>transparent\<close>, \<^verbatim>\<open>opacity\<close>) and,
  standing for the fields nothing in the engine writes, the \<^verbatim>\<open>color\<close>, \<^verbatim>\<open>wireframe\<close> and
  \<^verbatim>\<open>depthWrite\<close> of materials.js.
\<close>

record material =
  color :: nat
  wireframe :: bool
  depthWrite :: bool
  transparent :: bool
  opacity :: real

text \<open>
  The \<^verbatim>\<open>material\<close> property of an object: absent, one material, or an array of
  materials (\<^verbatim>\<open>Array.isArray(child.material)\<close>).  An array is an object too: besides its
  elements it can hold properties of its own, and \<^verbatim>\<open>setGroupOpacity\<close> can write
  \<^verbatim>\<open>transparent\<close> and \<^verbatim>\<open>opacity\<close> there; \<^verbatim>\<open>None\<close> when it has none, as built.
\<close>

datatype material_slot =
  Undefined
| Material material
| MaterialArray "material list" "(bool \<times> real) option"

text \<open>
  A \<^verbatim>\<open>THREE.Object3D\<close> with its subtree.  The flags \<^verbatim>\<open>isMesh\<close> and
  \<^verbatim>\<open>isLineSegments\<close> are the ones \<^verbatim>\<open>setGroupOpacity\<close> tests; a \<^verbatim>\<open>THREE.Group\<close> has
  neither.  A scene graph is a tree (an object has one parent), so the children are held
  by value.
\<close>

datatype object3d =
  Object3D (isMesh: bool) (isLineSegments: bool) (position: vec3) (visible: bool)
           (material: material_slot) (children: "object3d list")

fun set_position :: "vec3 \<Rightarrow> object3d \<Rightarrow> object3d" where
  "set_position q (Object3D im il p vis m ch) = Object3D im il q vis m ch"

fun set_visible :: "bool \<Rightarrow> object3d \<Rightarrow> object3d" where
  "set_visible b (Object3D im il p vis m ch) = Object3D im il p b m ch"

section \<open>animation.js\<close>

subsection \<open>Parts\<close>

text \<open>
  A part is the object \<^verbatim>\<open>{ mesh, originalPos, explodeDir }\<close> of models.js, to which
  \<^verbatim>\<open>setupExplodedView\<close> adds \<^verbatim>\<open>explodedPos\<close>.  Every field may be missing
  (\<^verbatim>\<open>undefined\<close>), which the code tests with \<^verbatim>\<open>!part.originalPos\<close> and the like.
  Every part of the repository has a mesh of its own (\<^verbatim>\<open>makePart\<close> builds one per part),
  so the mesh is held by the part.
\<close>

record part =
  mesh :: "object3d option"
  originalPos :: "vec3 option"
  explodeDir :: "vec3 option"
  explodedPos :: "vec3 option"

text \<open>What a JavaScript call can throw here: reading a property of \<^verbatim>\<open>undefined\<close>.\<close>

datatype js_error = TypeError

subsection \<open>setupExplodedView\<close>

text \<open>
  The body of the \<^verbatim>\<open>forEach\<close> callback.  The part is mutated in place, so a throw leaves
  the assignments made before it: the result is the part as it stands and the error, if
  any.
  \<^item> \<^verbatim>\<open>part.mesh.position.clone()\<close> throws when the part has no mesh;
  \<^item> \<^verbatim>\<open>part.originalPos.clone().add(part.explodeDir)\<close> throws inside three.js
    (\<^verbatim>\<open>this.x += v.x\<close>) when the part has no \<^verbatim>\<open>explodeDir\<close>, before
    \<^verbatim>\<open>part.explodedPos\<close> is assigned.
\<close>

definition computeExplodedPos :: "vec3 \<Rightarrow> part \<Rightarrow> part \<times> js_error option" where
  "computeExplodedPos orig p =
     (case explodeDir p of
        None \<Rightarrow> (p, Some TypeError)
      | Some d \<Rightarrow> (p\<lparr>explodedPos := Some (v3_add orig d)\<rparr>, None))"

definition setupPart :: "part \<Rightarrow> part \<times> js_error option" where
  "setupPart p =
     (case originalPos p of
        None \<Rightarrow>
          (case mesh p of
             None \<Rightarrow> (p, Some TypeError)
           | Some m \<Rightarrow> computeExplodedPos (position m) (p\<lparr>originalPos := Some (position m)\<rparr>))
      | Some orig \<Rightarrow> computeExplodedPos orig p)"

text \<open>\<^verbatim>\<open>parts.forEach(...)\<close>: in order, stopping at the first throw.\<close>

fun setupExplodedView :: "part list \<Rightarrow> part list \<times> js_error option" where
  "setupExplodedView [] = ([], None)"
| "setupExplodedView (p # ps) =
     (case setupPart p of
        (p', Some e) \<Rightarrow> (p' # ps, Some e)
      | (p', None) \<Rightarrow>
          (case setupExplodedView ps of (ps', r) \<Rightarrow> (p' # ps', r)))"

subsection \<open>updateExplodedView\<close>


text \<open>
  The clamp and the cubic ease-in-out of \<^verbatim>\<open>updateExplodedView\<close>:
  \<^verbatim>\<open>const t = Math.max(0, Math.min(1, progress));\<close>
  \<^verbatim>\<open>const eased = t < 0.5 ? 4 * t * t * t : 1 - Math.pow(-2 * t + 2, 3) / 2;\<close>
\<close>

definition clamp01 :: "real \<Rightarrow> real" where
  "clamp01 progress = max 0 (min 1 progress)"

definition eased :: "real \<Rightarrow> real" where
  "eased t = (if t < 0.5 then 4 * t * t * t else 1 - (- 2 * t + 2) ^ 3 / 2)"


text \<open>
  The body of the second \<^verbatim>\<open>forEach\<close> callback: a part lacking its mesh, its
  \<^verbatim>\<open>originalPos\<close> or its \<^verbatim>\<open>explodedPos\<close> is skipped (\<^verbatim>\<open>return\<close>); otherwise
  \<^verbatim>\<open>part.mesh.position.lerpVectors(part.originalPos, part.explodedPos, eased)\<close>.
\<close>

definition updatePart :: "real \<Rightarrow> part \<Rightarrow> part" where
  "updatePart e p =
     (case (mesh p, originalPos p, explodedPos p) of
        (Some m, Some orig, Some expl) \<Rightarrow>
          p\<lparr>mesh := Some (set_position (lerpVectors orig expl e) m)\<rparr>
      | _ \<Rightarrow> p)"

definition updateExplodedView :: "part list \<Rightarrow> real \<Rightarrow> part list" where
  "updateExplodedView ps progress =
     (let t = clamp01 progress; e = eased t in map (updatePart e) ps)"

subsection \<open>setGroupOpacity\<close>

text \<open>\<^verbatim>\<open>mat.transparent = true; mat.opacity = opacity;\<close>\<close>

definition fadeMaterial :: "real \<Rightarrow> material \<Rightarrow> material" where
  "fadeMaterial v mat = mat\<lparr>transparent := True, opacity := v\<rparr>"

text \<open>
  The callback given to \<^verbatim>\<open>group.traverse\<close>, as a function of the visited object's flags
  and material property.  The two \<^verbatim>\<open>if\<close>s run one after the other.  The first handles an
  array element by element.  The second assigns to \<^verbatim>\<open>child.material\<close> itself: on an
  array that writes \<^verbatim>\<open>transparent\<close> and \<^verbatim>\<open>opacity\<close> of the array object and touches
  none of its elements.
\<close>

definition opacityCallback :: "real \<Rightarrow> bool \<Rightarrow> bool \<Rightarrow> material_slot \<Rightarrow> material_slot" where
  "opacityCallback v is_mesh is_lines m =
     (let m1 =
            (if is_mesh \<and> m \<noteq> Undefined then
               (case m of
                  MaterialArray mats own \<Rightarrow> MaterialArray (map (fadeMaterial v) mats) own
                | Material mat \<Rightarrow> Material (fadeMaterial v mat)
                | Undefined \<Rightarrow> Undefined)
             else m)
      in if is_lines \<and> m1 \<noteq> Undefined then
           (case m1 of
              Material mat \<Rightarrow> Material (fadeMaterial v mat)
            | MaterialArray mats own \<Rightarrow> MaterialArray mats (Some (True, v))
            | Undefined \<Rightarrow> Undefined)
         else m1)"

text \<open>
  \<^verbatim>\<open>Object3D.traverse(callback)\<close> of three.js calls the callback on the object and then
  traverses each child.
\<close>

fun setGroupOpacity :: "object3d \<Rightarrow> real \<Rightarrow> object3d" where
  "setGroupOpacity (Object3D im il p vis m ch) v =
     Object3D im il p vis (opacityCallback v im il m) (map (\<lambda>c. setGroupOpacity c v) ch)"

section \<open>scrollController.js\<close>

text \<open>
  The object handed to \<^verbatim>\<open>registerModel\<close> (\<^verbatim>\<open>{ parts }\<close> in main.js); its \<^verbatim>\<open>parts\<close>
  field may be missing.
\<close>

record modelData =
  parts :: "part list option"

text \<open>
  The module's variables.  The observer is a function on the state of whoever installed
  it (main.js installs \<^verbatim>\<open>onSectionChange\<close>), \<^verbatim>\<open>None\<close> standing for \<^verbatim>\<open>null\<close>.
\<close>

record 'w scroll_state =
  activeSection :: string
  sectionModels :: "string \<rightharpoonup> modelData"
  onSectionChangeCallback :: "(string \<Rightarrow> string \<Rightarrow> 'w \<Rightarrow> 'w) option"

text \<open>The sections that get a trigger; the same list as \<^verbatim>\<open>ERA_ORDER\<close> of main.js.\<close>

definition ERA_SECTIONS :: "string list" where
  "ERA_SECTIONS = [''wheel'', ''steam'', ''electricity'', ''internet'', ''ai'']"

text \<open>
  \<^verbatim>\<open>let activeSection = 'hero'; let sectionModels = {}; let onSectionChangeCallback = null;\<close>
\<close>

definition scroll_init :: "'w scroll_state" where
  "scroll_init =
     \<lparr>activeSection = ''hero'', sectionModels = Map.empty, onSectionChangeCallback = None\<rparr>"

definition setOnSectionChange ::
  "(string \<Rightarrow> string \<Rightarrow> 'w \<Rightarrow> 'w) \<Rightarrow> 'w scroll_state \<Rightarrow> 'w scroll_state" where
  "setOnSectionChange callback s = s\<lparr>onSectionChangeCallback := Some callback\<rparr>"

text \<open>
  \<^verbatim>\<open>sectionModels[sectionId] = modelData; setupExplodedView(modelData.parts);\<close>
  The assignment comes first, so it stands when the second statement throws;
  \<^verbatim>\<open>setupExplodedView(undefined)\<close> throws at \<^verbatim>\<open>parts.forEach\<close>.  The registry holds the
  very array that \<^verbatim>\<open>setupExplodedView\<close> writes, so the registered parts are the written
  ones.
\<close>

definition registerModel ::
  "string \<Rightarrow> modelData \<Rightarrow> 'w scroll_state \<Rightarrow> 'w scroll_state \<times> js_error option" where
  "registerModel sectionId md s =
     (case parts md of
        None \<Rightarrow> (s\<lparr>sectionModels := (sectionModels s)(sectionId \<mapsto> md)\<rparr>, Some TypeError)
      | Some ps \<Rightarrow>
          (case setupExplodedView ps of
             (ps', r) \<Rightarrow>
               (s\<lparr>sectionModels := (sectionModels s)(sectionId \<mapsto> md\<lparr>parts := Some ps'\<rparr>)\<rparr>, r)))"

definition getActiveSection :: "'w scroll_state \<Rightarrow> string" where
  "getActiveSection s = activeSection s"

text \<open>
  \<^verbatim>\<open>setActiveSection\<close>, the handler of every \<^verbatim>\<open>onEnter\<close> and \<^verbatim>\<open>onEnterBack\<close>.  The pair
  is the module's state and the state the observer works on.
\<close>

definition setActiveSection :: "string \<Rightarrow> 'w scroll_state \<times> 'w \<Rightarrow> 'w scroll_state \<times> 'w" where
  "setActiveSection sectionId sw =
     (case sw of
        (s, w) \<Rightarrow>
          if activeSection s = sectionId then (s, w)
          else
            (let prevSection = activeSection s
             in (s\<lparr>activeSection := sectionId\<rparr>,
                 case onSectionChangeCallback s of
                   None \<Rightarrow> w
                 | Some callback \<Rightarrow> callback sectionId prevSection w)))"

section \<open>main.js\<close>

text \<open>
  An entry of \<^verbatim>\<open>models\<close>: \<^verbatim>\<open>{ group, parts }\<close>.  The meshes of the parts are objects of
  the group's subtree.  Their positions are written only through the parts
  (\<^verbatim>\<open>updateExplodedView\<close>), materials and visibility only through the group
  (\<^verbatim>\<open>setGroupOpacity\<close>, \<^verbatim>\<open>showModel\<close>, \<^verbatim>\<open>hideAllModels\<close>), and neither side reads what the
  other writes, so the two views are kept side by side.
\<close>

record model =
  modelGroup :: object3d
  modelParts :: "part list"

text \<open>
  A tween made by \<^verbatim>\<open>gsap.to({}, {...})\<close>.  \<^verbatim>\<open>showModel\<close> makes two kinds, told apart by
  their callbacks; each holds the model it captured (\<^verbatim>\<open>prevModel\<close>, \<^verbatim>\<open>newModel\<close>), named
  here by its key in \<^verbatim>\<open>models\<close>, whose entries are assigned once and never replaced.
\<close>

datatype fade = FadeOut | FadeIn

record tween =
  target :: string
  kind :: fade
  startTime :: real
  duration :: real

text \<open>
  The variables of main.js that the section switching uses, and the timeline of the
  animation library: its clock \<^verbatim>\<open>now\<close> (seconds) and its live tweens in the order they
  were made.  \<^verbatim>\<open>completed\<close> records every \<^verbatim>\<open>onComplete\<close> call, in order; nothing reads
  it.
\<close>

record main_state =
  models :: "string \<rightharpoonup> model"
  currentModelId :: "string option"
  now :: real
  tweens :: "tween list"
  completed :: "tween list"

definition ERA_ORDER :: "string list" where
  "ERA_ORDER = [''wheel'', ''steam'', ''electricity'', ''internet'', ''ai'']"

text \<open>\<^verbatim>\<open>let models = {}; let currentModelId = null;\<close> and an empty timeline.\<close>

definition main_init :: main_state where
  "main_init =
     \<lparr>models = Map.empty, currentModelId = None, now = 0, tweens = [], completed = []\<rparr>"

text \<open>A write to the group of the model stored under a key.\<close>

definition updateGroup :: "string \<Rightarrow> (object3d \<Rightarrow> object3d) \<Rightarrow> main_state \<Rightarrow> main_state" where
  "updateGroup k f w =
     (case models w k of
        None \<Rightarrow> w
      | Some m \<Rightarrow> w\<lparr>models := (models w)(k \<mapsto> m\<lparr>modelGroup := f (modelGroup m)\<rparr>)\<rparr>)"

text \<open>
  \<^verbatim>\<open>gsap.to({}, { duration, delay, onUpdate, onComplete })\<close>: a new tween at the end of
  the timeline, starting \<^verbatim>\<open>delay\<close> seconds from now.  Nothing in the repository ever
  kills a tween.
\<close>

definition gsap_to :: "real \<Rightarrow> real \<Rightarrow> fade \<Rightarrow> string \<Rightarrow> main_state \<Rightarrow> main_state" where
  "gsap_to dur delay k eraId w =
     w\<lparr>tweens := tweens w @
          [\<lparr>target = eraId, kind = k, startTime = now w + delay, duration = dur\<rparr>]\<rparr>"

text \<open>
  The callbacks of the two tweens of \<^verbatim>\<open>showModel\<close>.
  Fade-out: \<^verbatim>\<open>setGroupOpacity(prevModel.group, 1 - this.progress())\<close>, and on completion
  \<^verbatim>\<open>prevModel.group.visible = false; setGroupOpacity(prevModel.group, 1)\<close>.
  Fade-in: \<^verbatim>\<open>setGroupOpacity(newModel.group, this.progress())\<close>, and on completion
  \<^verbatim>\<open>setGroupOpacity(newModel.group, 1)\<close>.
\<close>

definition tweenUpdate :: "tween \<Rightarrow> real \<Rightarrow> main_state \<Rightarrow> main_state" where
  "tweenUpdate tw progress w =
     (case kind tw of
        FadeOut \<Rightarrow> updateGroup (target tw) (\<lambda>g. setGroupOpacity g (1 - progress)) w
      | FadeIn \<Rightarrow> updateGroup (target tw) (\<lambda>g. setGroupOpacity g progress) w)"

definition tweenComplete :: "tween \<Rightarrow> main_state \<Rightarrow> main_state" where
  "tweenComplete tw w =
     (case kind tw of
        FadeOut \<Rightarrow> updateGroup (target tw) (\<lambda>g. setGroupOpacity (set_visible False g) 1) w
      | FadeIn \<Rightarrow> updateGroup (target tw) (\<lambda>g. setGroupOpacity g 1) w)"

text \<open>
  The library's ticker at time \<^verbatim>\<open>t\<close>, over the live tweens in order: a tween still in
  its delay is left alone; otherwise \<^verbatim>\<open>onUpdate\<close> runs with the tween's progress, and a
  tween that has reached its end runs \<^verbatim>\<open>onComplete\<close> once and leaves the timeline.
\<close>

definition tweenProgress :: "tween \<Rightarrow> real \<Rightarrow> real" where
  "tweenProgress tw t =
     (if startTime tw + duration tw \<le> t then 1 else (t - startTime tw) / duration tw)"

fun render :: "real \<Rightarrow> tween list \<Rightarrow> main_state \<Rightarrow> tween list \<times> main_state" where
  "render t [] w = ([], w)"
| "render t (tw # tws) w =
     (if t < startTime tw then
        (case render t tws w of (rest, w') \<Rightarrow> (tw # rest, w'))
      else
        (let w1 = tweenUpdate tw (tweenProgress tw t) w
         in if startTime tw + duration tw \<le> t then
              render t tws ((tweenComplete tw w1)\<lparr>completed := completed w1 @ [tw]\<rparr>)
            else
              (case render t tws w1 of (rest, w') \<Rightarrow> (tw # rest, w'))))"

definition advance :: "real \<Rightarrow> main_state \<Rightarrow> main_state" where
  "advance dt w =
     (case render (now w + dt) (tweens w) w of
        (rest, w') \<Rightarrow> w'\<lparr>now := now w + dt, tweens := rest\<rparr>)"

text \<open>
  \<^verbatim>\<open>showModel\<close>.  \<^verbatim>\<open>currentModelId && models[currentModelId]\<close> holds when the id is a
  non-empty string with an entry in \<^verbatim>\<open>models\<close>.
\<close>

definition showModel :: "string \<Rightarrow> main_state \<Rightarrow> main_state" where
  "showModel eraId w =
     (if currentModelId w = Some eraId then w
      else
        (let w1 =
               (case currentModelId w of
                  None \<Rightarrow> w
                | Some c \<Rightarrow>
                    if c \<noteq> [] \<and> models w c \<noteq> None then gsap_to 0.3 0 FadeOut c w else w);
             w2 =
               (if models w1 eraId \<noteq> None then
                  gsap_to 0.4 0.1 FadeIn eraId
                    (updateGroup eraId (\<lambda>g. set_visible True (setGroupOpacity g 0)) w1)
                else w1)
         in w2\<lparr>currentModelId := Some eraId\<rparr>))"

text \<open>
  \<^verbatim>\<open>Object.values(models).forEach(m => { m.group.visible = false; }); currentModelId = null;\<close>
\<close>

definition hideAllModels :: "main_state \<Rightarrow> main_state" where
  "hideAllModels w =
     w\<lparr>models :=
          (\<lambda>k. map_option (\<lambda>m. m\<lparr>modelGroup := set_visible False (modelGroup m)\<rparr>) (models w k)),
       currentModelId := None\<rparr>"

text \<open>The observer main.js installs.  The code comments: hero or unknown section, hide all.\<close>

definition onSectionChange :: "string \<Rightarrow> string \<Rightarrow> main_state \<Rightarrow> main_state" where
  "onSectionChange newSection prevSection w =
     (if newSection \<in> set ERA_ORDER then showModel newSection w else hideAllModels w)"

section \<open>The running application\<close>

text \<open>
  The two modules together, with \<^verbatim>\<open>onSectionChange\<close> installed as \<^verbatim>\<open>initApp\<close> does, and
  the two kinds of event that reach them: a section boundary crossed (\<^verbatim>\<open>onEnter\<close> or
  \<^verbatim>\<open>onEnterBack\<close>, both \<^verbatim>\<open>setActiveSection\<close>), and the animation library's tick after
  \<^verbatim>\<open>dt\<close> seconds.
\<close>

type_synonym app = "main_state scroll_state \<times> main_state"

definition app_init :: "(string \<rightharpoonup> model) \<Rightarrow> app" where
  "app_init built = (setOnSectionChange onSectionChange scroll_init, main_init\<lparr>models := built\<rparr>)"

datatype event = Enter string | Frame real

fun step :: "app \<Rightarrow> event \<Rightarrow> app" where
  "step a (Enter sectionId) = setActiveSection sectionId a"
| "step a (Frame dt) = (fst a, advance dt (snd a))"

definition run :: "event list \<Rightarrow> app \<Rightarrow> app" where
  "run evs a = foldl step a evs"

section \<open>updateExplodedView in double precision\<close>

text \<open>
  A JavaScript number is an IEEE 754 double.  Above, numbers are reals and the arithmetic
  is exact.  Here the arithmetic of \<^verbatim>\<open>updateExplodedView\<close> and of the three.js functions
  it calls is given as the machine does it: each operation is the exact one followed by
  rounding to the nearest double, ties to the even significand.  A double is kept as the
  real it stands for.

  \<^verbatim>\<open>pow2 e\<close> is the power of two with exponent \<^verbatim>\<open>e\<close>.  \<^verbatim>\<open>roundEven\<close> rounds to the nearest
  integer, ties to even.  \<^verbatim>\<open>ulpExp x\<close> is the exponent of the unit in the last place of
  the doubles around \<^verbatim>\<open>x\<close>: 52 below the exponent of \<^verbatim>\<open>x\<close>, which is at least -1022
  (below it the doubles are subnormal, with a fixed unit).  \<^verbatim>\<open>fl\<close> is the rounding.
  Not-a-number, the infinities and the sign of zero are outside the model, so \<^verbatim>\<open>fl\<close> is
  the rounding of the machine on results below its overflow threshold.
\<close>

definition pow2 :: "int \<Rightarrow> real" where
  "pow2 e = (if 0 \<le> e then 2 ^ nat e else 1 / 2 ^ nat (- e))"

definition roundEven :: "real \<Rightarrow> int" where
  "roundEven y =
     (let f = \<lfloor>y\<rfloor>; r = y - of_int f
      in if r < 1 / 2 then f else if 1 / 2 < r then f + 1 else if even f then f else f + 1)"

definition ulpExp :: "real \<Rightarrow> int" where
  "ulpExp x = max \<lfloor>log 2 \<bar>x\<bar>\<rfloor> (- 1022) - 52"

definition fl :: "real \<Rightarrow> real" where
  "fl x = of_int (roundEven (x / pow2 (ulpExp x))) * pow2 (ulpExp x)"

text \<open>
  A double of magnitude at most \<^verbatim>\<open>2 ^ 1022\<close>, and a vector of such: sums and differences
  of two of them, and their products with a factor up to 1, do not overflow.
\<close>

definition isDouble :: "real \<Rightarrow> bool" where
  "isDouble x = (fl x = x \<and> \<bar>x\<bar> \<le> 2 ^ 1022)"

definition doubleVec :: "vec3 \<Rightarrow> bool" where
  "doubleVec v = (isDouble (vx v) \<and> isDouble (vy v) \<and> isDouble (vz v))"

text \<open>Coordinate-wise rounding, used only to state properties.\<close>

definition v3_fl :: "vec3 \<Rightarrow> vec3" where
  "v3_fl v = Vector3 (fl (vx v)) (fl (vy v)) (fl (vz v))"

text \<open>\<^verbatim>\<open>Vector3.add(v)\<close>: \<^verbatim>\<open>this.x += v.x\<close>, and the same for y and z.\<close>

definition v3_add64 :: "vec3 \<Rightarrow> vec3 \<Rightarrow> vec3" where
  "v3_add64 a v = Vector3 (fl (vx a + vx v)) (fl (vy a + vy v)) (fl (vz a + vz v))"

text \<open>
  \<^verbatim>\<open>this.x = v1.x + (v2.x - v1.x) * alpha\<close>: a subtraction, a multiplication and an
  addition, each rounded.
\<close>

definition lerp64 :: "real \<Rightarrow> real \<Rightarrow> real \<Rightarrow> real" where
  "lerp64 a b alpha = fl (a + fl (fl (b - a) * alpha))"

definition lerpVectors64 :: "vec3 \<Rightarrow> vec3 \<Rightarrow> real \<Rightarrow> vec3" where
  "lerpVectors64 v1 v2 alpha =
     Vector3 (lerp64 (vx v1) (vx v2) alpha)
             (lerp64 (vy v1) (vy v2) alpha)
             (lerp64 (vz v1) (vz v2) alpha)"

text \<open>
  \<^verbatim>\<open>t < 0.5 ? 4 * t * t * t : 1 - Math.pow(-2 * t + 2, 3) / 2\<close>, the products from left
  to right.  ECMAScript leaves the accuracy of \<^verbatim>\<open>Math.pow\<close> to the implementation, so the
  cube is a parameter, \<^verbatim>\<open>cube x\<close> standing for \<^verbatim>\<open>Math.pow(x, 3)\<close>; the standard fixes
  \<^verbatim>\<open>Math.pow(0, 3)\<close> to be 0.
\<close>

definition eased64 :: "(real \<Rightarrow> real) \<Rightarrow> real \<Rightarrow> real" where
  "eased64 cube t =
     (if t < 1 / 2 then fl (fl (fl (4 * t) * t) * t)
      else fl (1 - fl (cube (fl (fl (- 2 * t) + 2)) / 2)))"

text \<open>
  The callback and the function as in the section on animation.js.  \<^verbatim>\<open>Math.max\<close> and
  \<^verbatim>\<open>Math.min\<close> return one of their arguments, so the clamp is exact.
\<close>

definition updatePart64 :: "real \<Rightarrow> part \<Rightarrow> part" where
  "updatePart64 e p =
     (case (mesh p, originalPos p, explodedPos p) of
        (Some m, Some orig, Some expl) \<Rightarrow>
          p\<lparr>mesh := Some (set_position (lerpVectors64 orig expl e) m)\<rparr>
      | _ \<Rightarrow> p)"

definition updateExplodedView64 :: "(real \<Rightarrow> real) \<Rightarrow> part list \<Rightarrow> real \<Rightarrow> part list" where
  "updateExplodedView64 cube ps progress =
     (let t = clamp01 progress; e = eased64 cube t in map (updatePart64 e) ps)"

section \<open>Notions used to state the properties\<close>

text \<open>The objects of a subtree, the root first.\<close>

fun nodes :: "object3d \<Rightarrow> object3d list" where
  "nodes (Object3D im il p vis m ch) =
     Object3D im il p vis m ch # concat (map nodes ch)"

text \<open>The materials in a material property.\<close>

fun slotMaterials :: "material_slot \<Rightarrow> material list" where
  "slotMaterials Undefined = []"
| "slotMaterials (Material mat) = [mat]"
| "slotMaterials (MaterialArray mats own) = mats"

text \<open>
  A material stands at opacity \<^verbatim>\<open>v\<close> when its \<^verbatim>\<open>opacity\<close> is \<^verbatim>\<open>v\<close> and it is flagged
  transparent.  An object that is a mesh or a line-segments object stands at opacity
  \<^verbatim>\<open>v\<close> when every material in its material property does, each element of an array
  included.  A group stands at opacity \<^verbatim>\<open>v\<close> when every object of its subtree does.
\<close>

definition fadedTo :: "real \<Rightarrow> material \<Rightarrow> bool" where
  "fadedTo v mat = (opacity mat = v \<and> transparent mat)"

definition objectOpacityIs :: "real \<Rightarrow> object3d \<Rightarrow> bool" where
  "objectOpacityIs v n =
     (if isMesh n \<or> isLineSegments n then list_all (fadedTo v) (slotMaterials (material n))
      else True)"

definition groupOpacityIs :: "real \<Rightarrow> object3d \<Rightarrow> bool" where
  "groupOpacityIs v g = list_all (objectOpacityIs v) (nodes g)"





text \<open>
  A line-segments object, not a mesh, whose material property is an array; and a group
  with no such object in its subtree.  Every line-segments object of models.js has a
  single material.
\<close>

fun isArraySlot :: "material_slot \<Rightarrow> bool" where
  "isArraySlot (MaterialArray mats own) = True"
| "isArraySlot m = False"

definition lineArray :: "object3d \<Rightarrow> bool" where
  "lineArray n = (isLineSegments n \<and> \<not> isMesh n \<and> isArraySlot (material n))"

definition plainLines :: "object3d \<Rightarrow> bool" where
  "plainLines g = list_all (\<lambda>n. \<not> lineArray n) (nodes g)"





text \<open>
  A part that \<^verbatim>\<open>setupExplodedView\<close> can work on: it has an \<^verbatim>\<open>explodeDir\<close>, and an
  \<^verbatim>\<open>originalPos\<close> or a mesh to take it from.
\<close>

definition wellFormedPart :: "part \<Rightarrow> bool" where
  "wellFormedPart p = (explodeDir p \<noteq> None \<and> (originalPos p \<noteq> None \<or> mesh p \<noteq> None))"


text \<open>The live position of a part: \<^verbatim>\<open>part.mesh.position\<close>.\<close>

definition livePosition :: "part \<Rightarrow> vec3 option" where
  "livePosition p = map_option position (mesh p)"

text \<open>
  A tween is due at time \<^verbatim>\<open>t\<close> when the ticker, run at \<^verbatim>\<open>t\<close>, completes it: its delay
  and its duration have passed.
\<close>

definition tweenDue :: "real \<Rightarrow> tween \<Rightarrow> bool" where
  "tweenDue t tw = (startTime tw \<le> t \<and> startTime tw + duration tw \<le> t)"

text \<open>The tweens one call of \<^verbatim>\<open>showModel\<close> makes, in order.\<close>

definition scheduled :: "string \<Rightarrow> main_state \<Rightarrow> tween list" where
  "scheduled eraId w =
     (if currentModelId w = Some eraId then []
      else
        (case currentModelId w of
           None \<Rightarrow> []
         | Some c \<Rightarrow>
             if c \<noteq> [] \<and> models w c \<noteq> None
             then [\<lparr>target = c, kind = FadeOut, startTime = now w, duration = 3 / 10\<rparr>]
             else []) @
        (if models w eraId \<noteq> None
         then [\<lparr>target = eraId, kind = FadeIn, startTime = now w + 1 / 10, duration = 4 / 10\<rparr>]
         else []))"

text \<open>
  What can be seen of the model under a key: the visibility flag of its group, the
  material properties of the objects of its group, and whether there is a model whose
  group has a given property: all flagged transparent, standing at an opacity, with no
  line-segments object holding an array.
\<close>

definition modelVisible :: "main_state \<Rightarrow> string \<Rightarrow> bool option" where
  "modelVisible w k = map_option (\<lambda>m. visible (modelGroup m)) (models w k)"

definition modelMaterials :: "main_state \<Rightarrow> string \<Rightarrow> material_slot list option" where
  "modelMaterials w k = map_option (\<lambda>m. map material (nodes (modelGroup m))) (models w k)"

definition modelSatisfies :: "(object3d \<Rightarrow> bool) \<Rightarrow> main_state \<Rightarrow> string \<Rightarrow> bool" where
  "modelSatisfies P w k = (case models w k of None \<Rightarrow> False | Some m \<Rightarrow> P (modelGroup m))"


definition modelOpacityIs :: "real \<Rightarrow> main_state \<Rightarrow> string \<Rightarrow> bool" where
  "modelOpacityIs v = modelSatisfies (groupOpacityIs v)"

definition modelPlain :: "main_state \<Rightarrow> string \<Rightarrow> bool" where
  "modelPlain = modelSatisfies plainLines"

text \<open>Some fade-out on the model under \<^verbatim>\<open>k\<close> is among the tweens and due at \<^verbatim>\<open>t\<close>.\<close>

definition hiddenBy :: "real \<Rightarrow> tween list \<Rightarrow> string \<Rightarrow> bool" where
  "hiddenBy t tws k = list_ex (\<lambda>tw. target tw = k \<and> kind tw = FadeOut \<and> tweenDue t tw) tws"

text \<open>
  The application has \<^verbatim>\<open>onSectionChange\<close> installed; and its current model, when it has
  one, is the active section.
\<close>

definition installed :: "app \<Rightarrow> bool" where
  "installed a = (onSectionChangeCallback (fst a) = Some onSectionChange)"

definition inSync :: "app \<Rightarrow> bool" where
  "inSync a =
     (case currentModelId (snd a) of None \<Rightarrow> True | Some c \<Rightarrow> activeSection (fst a) = c)"

text \<open>An observer that only records what it is called with.\<close>

definition recordingObserver ::
  "string \<Rightarrow> string \<Rightarrow> (string \<times> string) list \<Rightarrow> (string \<times> string) list" where
  "recordingObserver newSection prevSection calls = calls @ [(newSection, prevSection)]"

text \<open>
  The state of a fade-in \<^verbatim>\<open>fi\<close> that nothing interferes with, at any moment after it was
  scheduled: it is the only tween on its model; the model is visible; while the tween is
  on the timeline its end is still to come; and, for a model without array-valued line
  materials (\<^verbatim>\<open>pl\<close>), once the tween has left the timeline the model stands at opacity 1.
\<close>

definition fadeInPending :: "tween \<Rightarrow> bool \<Rightarrow> main_state \<Rightarrow> bool" where
  "fadeInPending fi pl w =
     ((\<forall>tw \<in> set (tweens w). target tw = target fi \<longrightarrow> tw = fi) \<and>
      modelVisible w (target fi) = Some True \<and>
      (fi \<in> set (tweens w) \<longrightarrow> now w < startTime fi + duration fi) \<and>
      (pl \<longrightarrow> modelPlain w (target fi)) \<and>
      (pl \<longrightarrow> fi \<notin> set (tweens w) \<longrightarrow> modelOpacityIs 1 w (target fi)))"

section \<open>Example data\<close>

text \<open>
  Two parts as \<^verbatim>\<open>createWheelModel\<close> builds them: the rim at the origin, pushed to
  (0, 0, 0.8), and the hub cap at (0, 0, 0.18), pushed by (0, 0, -1.8).
\<close>

definition exampleMaterial :: material where
  "exampleMaterial =
     \<lparr>color = 9136404, wireframe = False, depthWrite = True, transparent = False, opacity = 1\<rparr>"

definition exampleMesh :: "vec3 \<Rightarrow> object3d" where
  "exampleMesh p = Object3D True False p True (Material exampleMaterial) []"

definition rimPart :: part where
  "rimPart =
     \<lparr>mesh = Some (exampleMesh (Vector3 0 0 0)), originalPos = Some (Vector3 0 0 0),
      explodeDir = Some (Vector3 0 0 (8 / 10)), explodedPos = None\<rparr>"

definition hubCapPart :: part where
  "hubCapPart =
     \<lparr>mesh = Some (exampleMesh (Vector3 0 0 (18 / 100))),
      originalPos = Some (Vector3 0 0 (18 / 100)),
      explodeDir = Some (Vector3 0 0 (- 18 / 10)), explodedPos = None\<rparr>"


text \<open>A part with no \<^verbatim>\<open>explodeDir\<close>.\<close>

definition bareMeshPart :: part where
  "bareMeshPart =
     \<lparr>mesh = Some (exampleMesh (Vector3 0 0 0)), originalPos = None, explodeDir = None,
      explodedPos = None\<rparr>"

text \<open>
  A group in the manner of models.js: a mesh with one material, a mesh with an array of
  materials, and a line-segments object like the rack frame of \<^verbatim>\<open>createInternetModel\<close>;
  hidden, as \<^verbatim>\<open>buildModels\<close> leaves it.  Two models made of it.
\<close>

definition lineMaterial :: material where
  "lineMaterial =
     \<lparr>color = 5592422, wireframe = False, depthWrite = True, transparent = True,
      opacity = 1 / 2\<rparr>"

definition exampleGroup :: object3d where
  "exampleGroup =
     Object3D False False (Vector3 0 0 0) False Undefined
       [exampleMesh (Vector3 0 0 (18 / 100)),
        Object3D True False (Vector3 0 1 0) True
          (MaterialArray [exampleMaterial, lineMaterial] None) [],
        Object3D False True (Vector3 0 0 0) True (Material lineMaterial) []]"

definition exampleModels :: "string \<rightharpoonup> model" where
  "exampleModels =
     [''wheel'' \<mapsto> \<lparr>modelGroup = exampleGroup, modelParts = [rimPart, hubCapPart]\<rparr>,
      ''steam'' \<mapsto> \<lparr>modelGroup = exampleGroup, modelParts = []\<rparr>]"

text \<open>
  Scrolling into the wheel section, a second later on into the steam section, and a
  tenth of a second after that back into the wheel section, while the wheel's fade-out
  of 0.3 s is still running; then one more second.
\<close>

definition crossfadeRun :: "event list" where
  "crossfadeRun =
     [Enter ''wheel'', Frame 1, Enter ''steam'', Frame (1 / 10), Enter ''wheel'', Frame 1]"

text \<open>The wheel section entered and its fade-in over.\<close>

definition wheelShown :: "event list" where
  "wheelShown = [Enter ''wheel'', Frame 1]"


text \<open>The wheel section entered, and two tenths of a second of its fade-in run.\<close>

definition wheelFading :: "event list" where
  "wheelFading = [Enter ''wheel'', Frame (2 / 10)]"

text \<open>
  The boiler of \<^verbatim>\<open>createSteamEngineModel\<close> after \<^verbatim>\<open>setupExplodedView\<close>: at (0, 0.5, 0),
  pushed by (0, 1.5, 0).
\<close>

definition boilerReady :: part where
  "boilerReady =
     \<lparr>mesh = Some (exampleMesh (Vector3 0 (1 / 2) 0)), originalPos = Some (Vector3 0 (1 / 2) 0),
      explodeDir = Some (Vector3 0 (3 / 2) 0), explodedPos = Some (Vector3 0 2 0)\<rparr>"

text \<open>
  A part at x = -0.86 pushed by 1.86, these being the doubles written so, after
  \<^verbatim>\<open>setupExplodedView\<close>: the sum of the two doubles rounds to 1.
\<close>

definition roundingPart :: part where
  "roundingPart =
     \<lparr>mesh = Some (exampleMesh (Vector3 (- 7746191359077253 / 9007199254740992) 0 0)),
      originalPos = Some (Vector3 (- 7746191359077253 / 9007199254740992) 0 0),
      explodeDir = Some (Vector3 (8376695306909123 / 4503599627370496) 0 0),
      explodedPos = Some (Vector3 1 0 0)\<rparr>"

text \<open>The correctly rounded cube, one admissible \<^verbatim>\<open>Math.pow(x, 3)\<close>.\<close>

definition cube64 :: "real \<Rightarrow> real" where
  "cube64 x = fl (x ^ 3)"

section \<open>Properties of the easing\<close>

lemma eased_low: "t < 1 / 2 \<Longrightarrow> eased t = 4 * t ^ 3"
  by (simp add: eased_def power3_eq_cube)

lemma eased_high: "1 / 2 \<le> t \<Longrightarrow> eased t = 1 - (2 - 2 * t) ^ 3 / 2"
  by (simp add: eased_def)

lemma eased_low_le_half:
  assumes "0 \<le> s" "s < 1 / 2"
  shows "eased s \<le> 1 / 2"
proof -
  have "s ^ 3 \<le> (1 / 2) ^ 3"
    using assms by (intro power_mono) simp_all
  then show ?thesis
    using assms by (simp add: eased_low power3_eq_cube)
qed

lemma eased_high_ge_half:
  assumes "1 / 2 \<le> t" "t \<le> 1"
  shows "1 / 2 \<le> eased t"
proof -
  have "(2 - 2 * t) ^ 3 \<le> 1 ^ 3"
    using assms by (intro power_mono) simp_all
  then show ?thesis
    using assms by (simp add: eased_high)
qed

lemma eased_mono_01:
  assumes "0 \<le> s" "s \<le> t" "t \<le> 1"
  shows "eased s \<le> eased t"
proof -
  consider (low) "t < 1 / 2" | (high) "1 / 2 \<le> s" | (cross) "s < 1 / 2" "1 / 2 \<le> t"
    by linarith
  then show ?thesis
  proof cases
    case low
    then have "s < 1 / 2" using assms by simp
    moreover have "s ^ 3 \<le> t ^ 3"
      using assms by (intro power_mono) simp_all
    ultimately show ?thesis
      using low by (simp add: eased_low)
  next
    case high
    then have "1 / 2 \<le> t" using assms by simp
    moreover have "(2 - 2 * t) ^ 3 \<le> (2 - 2 * s) ^ 3"
      using assms by (intro power_mono) simp_all
    ultimately show ?thesis
      using high by (simp add: eased_high)
  next
    case cross
    have "eased s \<le> 1 / 2"
      using assms cross by (intro eased_low_le_half) simp_all
    also have "1 / 2 \<le> eased t"
      using assms cross by (intro eased_high_ge_half) simp_all
    finally show ?thesis .
  qed
qed

text \<open>
  C8.  The easing used by \<^verbatim>\<open>updateExplodedView\<close> (\<^verbatim>\<open>4*t*t*t\<close> below one half,
  otherwise \<^verbatim>\<open>1 - (-2*t + 2)^3 / 2\<close>) takes 0 to 0, one half to one half and 1 to 1, and it is
  non-decreasing on the interval from 0 to 1.
\<close>

theorem eased_endpoints_and_monotone:
  "eased 0 = 0 \<and> eased (1 / 2) = 1 / 2 \<and> eased 1 = 1 \<and>
   (\<forall>s t. 0 \<le> s \<and> s \<le> t \<and> t \<le> 1 \<longrightarrow> eased s \<le> eased t)"
proof -
  have "eased 0 = 0" "eased (1 / 2) = 1 / 2" "eased 1 = 1"
    by (simp_all add: eased_def power3_eq_cube)
  moreover have "\<forall>s t. 0 \<le> s \<and> s \<le> t \<and> t \<le> 1 \<longrightarrow> eased s \<le> eased t"
    using eased_mono_01 by blast
  ultimately show ?thesis by blast
qed

theorem eased_endpoints_and_monotone_witness:
  "eased (1 / 4) = 1 / 16 \<and> eased (3 / 4) = 15 / 16 \<and> eased (1 / 4) \<le> eased (3 / 4)"
proof -
  have vals: "eased (1 / 4) = 1 / 16" "eased (3 / 4) = 15 / 16"
    by (simp_all add: eased_def power3_eq_cube)
  have "(0::real) \<le> 1 / 4 \<and> (1 / 4 :: real) \<le> 3 / 4 \<and> (3 / 4 :: real) \<le> 1"
    by simp
  with eased_endpoints_and_monotone have "eased (1 / 4) \<le> eased (3 / 4)"
    by blast
  with vals show ?thesis by simp
qed


section \<open>Properties of setupExplodedView\<close>

lemma setupPart_ok_iff: "snd (setupPart p) = None \<longleftrightarrow> wellFormedPart p"
  by (auto simp: setupPart_def computeExplodedPos_def wellFormedPart_def split: option.splits)




lemma setupExplodedView_ok_iff:
  "snd (setupExplodedView ps) = None \<longleftrightarrow> list_all wellFormedPart ps"
proof (induction ps)
  case Nil
  show ?case by simp
next
  case (Cons p ps)
  obtain p' r where sp: "setupPart p = (p', r)" by (cases "setupPart p")
  obtain ps' r' where sv: "setupExplodedView ps = (ps', r')" by (cases "setupExplodedView ps")
  have "r = None \<longleftrightarrow> wellFormedPart p"
    using setupPart_ok_iff[of p] sp by simp
  then show ?case
    using Cons.IH sp sv by (cases r) auto
qed




section \<open>Properties of updateExplodedView\<close>

lemma lerpVectors_1: "lerpVectors a b 1 = b"
  by (cases b) (simp add: lerpVectors_def)

lemma eased_clamp_ge1: "1 \<le> t \<Longrightarrow> eased (clamp01 t) = 1"
  by (simp add: eased_def clamp01_def max_def min_def)

lemma set_position_twice: "set_position q (set_position q' m) = set_position q m"
  by (cases m) simp

lemma position_set_position: "position (set_position q m) = q"
  by (cases m) simp

lemma updatePart_skip:
  "mesh p = None \<or> originalPos p = None \<or> explodedPos p = None \<Longrightarrow> updatePart e p = p"
  by (auto simp: updatePart_def split: option.splits)

lemma updateExplodedView_nth:
  "i < length ps \<Longrightarrow> updateExplodedView ps t ! i = updatePart (eased (clamp01 t)) (ps ! i)"
  by (simp add: updateExplodedView_def Let_def)

lemma length_updateExplodedView: "length (updateExplodedView ps t) = length ps"
  by (simp add: updateExplodedView_def Let_def)

section \<open>Properties of setGroupOpacity\<close>

lemma fadedTo_fadeMaterial: "fadedTo v (fadeMaterial v mat)"
  by (simp add: fadedTo_def fadeMaterial_def)


lemma opacityCallback_mesh:
  "im \<Longrightarrow> list_all (fadedTo v) (slotMaterials (opacityCallback v im il m))"
  by (cases m) (auto simp: opacityCallback_def Let_def fadedTo_fadeMaterial list_all_iff)

lemma opacityCallback_lines:
  "il \<Longrightarrow> \<not> isArraySlot m \<Longrightarrow> list_all (fadedTo v) (slotMaterials (opacityCallback v im il m))"
  by (cases m) (auto simp: opacityCallback_def Let_def fadedTo_fadeMaterial)

lemma opacityCallback_line_array:
  "opacityCallback v False True (MaterialArray mats own) = MaterialArray mats (Some (True, v))"
  by (simp add: opacityCallback_def)


lemma isArraySlot_opacityCallback: "isArraySlot (opacityCallback v im il m) = isArraySlot m"
  by (cases m) (auto simp: opacityCallback_def Let_def)



lemma groupOpacityIs_Object3D:
  "groupOpacityIs v (Object3D im il p vis m ch) \<longleftrightarrow>
     objectOpacityIs v (Object3D im il p vis m ch) \<and> list_all (groupOpacityIs v) ch"
  by (simp add: groupOpacityIs_def list_all_iff)


lemma plainLines_Object3D:
  "plainLines (Object3D im il p vis m ch) \<longleftrightarrow>
     \<not> lineArray (Object3D im il p vis m ch) \<and> list_all plainLines ch"
  by (simp add: plainLines_def list_all_iff)

lemma objectOpacityIs_callback:
  "\<not> lineArray (Object3D im il p vis m ch) \<Longrightarrow>
   objectOpacityIs v (Object3D im il p vis (opacityCallback v im il m) ch')"
  by (cases im) (auto simp: objectOpacityIs_def lineArray_def opacityCallback_mesh opacityCallback_lines)

lemma groupOpacityIs_setGroupOpacity:
  "plainLines g \<Longrightarrow> groupOpacityIs v (setGroupOpacity g v)"
proof (induction g v rule: setGroupOpacity.induct)
  case (1 im il p vis m ch v)
  from "1.prems" have here: "\<not> lineArray (Object3D im il p vis m ch)"
    and below: "list_all plainLines ch"
    by (simp_all add: plainLines_Object3D)
  have "list_all (groupOpacityIs v) (map (\<lambda>c. setGroupOpacity c v) ch)"
    using "1.IH" below by (simp add: list_all_iff)
  then show ?case
    unfolding setGroupOpacity.simps groupOpacityIs_Object3D
    using objectOpacityIs_callback[OF here] by blast
qed

lemma plainLines_setGroupOpacity: "plainLines (setGroupOpacity g v) = plainLines g"
proof (induction g v rule: setGroupOpacity.induct)
  case (1 im il p vis m ch v)
  have "list_all plainLines (map (\<lambda>c. setGroupOpacity c v) ch) = list_all plainLines ch"
    using "1.IH" by (simp add: list_all_iff)
  then show ?case
    unfolding setGroupOpacity.simps plainLines_Object3D
    by (simp add: lineArray_def isArraySlot_opacityCallback)
qed








lemma groupOpacityIs_set_visible: "groupOpacityIs v (set_visible b g) = groupOpacityIs v g"
  by (cases g) (simp add: groupOpacityIs_def objectOpacityIs_def)

lemma plainLines_set_visible: "plainLines (set_visible b g) = plainLines g"
  by (cases g) (simp add: plainLines_def lineArray_def)

lemma visible_setGroupOpacity: "visible (setGroupOpacity g v) = visible g"
  by (cases g) simp

lemma visible_set_visible: "visible (set_visible b g) = b"
  by (cases g) simp

section \<open>The timeline\<close>

lemma updateGroup_fields:
  "tweens (updateGroup k f w) = tweens w"
  "now (updateGroup k f w) = now w"
  "completed (updateGroup k f w) = completed w"
  "currentModelId (updateGroup k f w) = currentModelId w"
  by (simp_all add: updateGroup_def split: option.splits)

lemma models_updateGroup:
  "models (updateGroup k f w) k' =
     (if k' = k then map_option (\<lambda>m. m\<lparr>modelGroup := f (modelGroup m)\<rparr>) (models w k)
      else models w k')"
  by (simp add: updateGroup_def split: option.splits)

lemma gsap_to_fields:
  "tweens (gsap_to dur delay kd e w) =
     tweens w @ [\<lparr>target = e, kind = kd, startTime = now w + delay, duration = dur\<rparr>]"
  "now (gsap_to dur delay kd e w) = now w"
  "completed (gsap_to dur delay kd e w) = completed w"
  "currentModelId (gsap_to dur delay kd e w) = currentModelId w"
  "models (gsap_to dur delay kd e w) = models w"
  by (simp_all add: gsap_to_def)

lemma tweenUpdate_fields:
  "tweens (tweenUpdate tw pr w) = tweens w"
  "now (tweenUpdate tw pr w) = now w"
  "completed (tweenUpdate tw pr w) = completed w"
  "currentModelId (tweenUpdate tw pr w) = currentModelId w"
  by (simp_all add: tweenUpdate_def updateGroup_fields split: fade.splits)

lemma tweenComplete_fields:
  "tweens (tweenComplete tw w) = tweens w"
  "now (tweenComplete tw w) = now w"
  "completed (tweenComplete tw w) = completed w"
  "currentModelId (tweenComplete tw w) = currentModelId w"
  by (simp_all add: tweenComplete_def updateGroup_fields split: fade.splits)

lemma models_tweenUpdate_other:
  "target tw \<noteq> k \<Longrightarrow> models (tweenUpdate tw pr w) k = models w k"
  by (simp add: tweenUpdate_def models_updateGroup split: fade.splits)

lemma models_tweenComplete_other:
  "target tw \<noteq> k \<Longrightarrow> models (tweenComplete tw w) k = models w k"
  by (simp add: tweenComplete_def models_updateGroup split: fade.splits)

lemma render_fst: "fst (render t tws w) = filter (\<lambda>tw. \<not> tweenDue t tw) tws"
  by (induction tws arbitrary: w) (auto simp: tweenDue_def Let_def split_beta)

lemma render_snd_fields:
  "now (snd (render t tws w)) = now w \<and>
   tweens (snd (render t tws w)) = tweens w \<and>
   currentModelId (snd (render t tws w)) = currentModelId w \<and>
   completed (snd (render t tws w)) = completed w @ filter (tweenDue t) tws"
proof (induction tws arbitrary: w)
  case Nil
  show ?case by simp
next
  case (Cons tw tws)
  show ?case
    by (auto simp: Cons.IH tweenDue_def Let_def tweenUpdate_fields tweenComplete_fields
        split_beta)
qed

lemma render_models_other:
  "\<forall>tw \<in> set tws. target tw \<noteq> k \<Longrightarrow> models (snd (render t tws w)) k = models w k"
proof (induction tws arbitrary: w)
  case Nil
  show ?case by simp
next
  case (Cons tw tws)
  then show ?case
    by (auto simp: Let_def models_tweenUpdate_other models_tweenComplete_other split_beta)
qed

lemma render_append:
  "render t (xs @ ys) w =
     (fst (render t xs w) @ fst (render t ys (snd (render t xs w))),
      snd (render t ys (snd (render t xs w))))"
  by (induction xs arbitrary: w) (auto simp: Let_def split_beta)

lemma advance_timeline:
  "tweens (advance dt w) = filter (\<lambda>tw. \<not> tweenDue (now w + dt) tw) (tweens w) \<and>
   completed (advance dt w) = completed w @ filter (tweenDue (now w + dt)) (tweens w) \<and>
   now (advance dt w) = now w + dt \<and>
   currentModelId (advance dt w) = currentModelId w"
  using render_fst[of "now w + dt" "tweens w" w] render_snd_fields[of "now w + dt" "tweens w" w]
  by (simp add: advance_def split_beta)

lemma showModel_timeline:
  "tweens (showModel e w) = tweens w @ scheduled e w \<and>
   completed (showModel e w) = completed w \<and>
   now (showModel e w) = now w"
  by (auto simp: showModel_def scheduled_def Let_def gsap_to_fields updateGroup_fields
      models_updateGroup split: option.splits)

lemma showModel_current: "currentModelId (showModel e w) = Some e"
  by (simp add: showModel_def Let_def)

lemma showModel_models:
  "currentModelId w \<noteq> Some e \<Longrightarrow>
   models (showModel e w) k =
     (if k = e then map_option (\<lambda>m. m\<lparr>modelGroup := set_visible True (setGroupOpacity (modelGroup m) 0)\<rparr>) (models w k)
      else models w k)"
  by (auto simp: showModel_def Let_def gsap_to_fields models_updateGroup split: option.splits)

lemma showModel_idem: "showModel e (showModel e w) = showModel e w"
  using showModel_current[of e w] by (simp add: showModel_def[of e "showModel e w"])

lemma hideAllModels_fields:
  "tweens (hideAllModels w) = tweens w"
  "now (hideAllModels w) = now w"
  "completed (hideAllModels w) = completed w"
  "currentModelId (hideAllModels w) = None"
  "models (hideAllModels w) k =
     map_option (\<lambda>m. m\<lparr>modelGroup := set_visible False (modelGroup m)\<rparr>) (models w k)"
  by (simp_all add: hideAllModels_def)

lemma models_advance: "models (advance dt w) = models (snd (render (now w + dt) (tweens w) w))"
  by (simp add: advance_def split_beta)

lemma render_single_due:
  assumes "tweenDue t tw"
  shows "snd (render t [tw] w) =
           (tweenComplete tw (tweenUpdate tw 1 w))\<lparr>completed := completed w @ [tw]\<rparr>"
  using assms by (auto simp: tweenDue_def Let_def tweenProgress_def tweenUpdate_fields)

lemma scheduled_snoc:
  assumes "models w e \<noteq> None" "currentModelId w \<noteq> Some e"
  shows "\<exists>pre. scheduled e w =
           pre @ [\<lparr>target = e, kind = FadeIn, startTime = now w + 1 / 10, duration = 4 / 10\<rparr>] \<and>
           (\<forall>tw \<in> set pre. target tw \<noteq> e)"
  using assms by (auto simp: scheduled_def split: option.splits)

section \<open>Visibility\<close>

lemma modelVisible_updateGroup_keep:
  assumes "\<And>g. visible (f g) = visible g"
  shows "modelVisible (updateGroup k f w) k' = modelVisible w k'"
  by (simp add: modelVisible_def models_updateGroup option.map_comp o_def assms)

lemma modelVisible_updateGroup_set:
  assumes "\<And>g. visible (f g) = b"
  shows "modelVisible (updateGroup k f w) k' =
     (if k' = k then map_option (\<lambda>_. b) (modelVisible w k') else modelVisible w k')"
  by (simp add: modelVisible_def models_updateGroup option.map_comp o_def assms)

lemma modelVisible_tweenUpdate: "modelVisible (tweenUpdate tw pr w) k = modelVisible w k"
  by (cases "kind tw")
     (simp_all add: tweenUpdate_def modelVisible_updateGroup_keep visible_setGroupOpacity)

lemma modelVisible_tweenComplete:
  "modelVisible (tweenComplete tw w) k =
     (if target tw = k \<and> kind tw = FadeOut then map_option (\<lambda>_. False) (modelVisible w k)
      else modelVisible w k)"
proof (cases "kind tw")
  case FadeOut
  have "\<And>g. visible (setGroupOpacity (set_visible False g) 1) = False"
    by (simp add: visible_setGroupOpacity visible_set_visible)
  from modelVisible_updateGroup_set[of "\<lambda>g. setGroupOpacity (set_visible False g) 1" False, OF this]
  show ?thesis
    using FadeOut by (auto simp: tweenComplete_def)
next
  case FadeIn
  then show ?thesis
    by (simp add: tweenComplete_def modelVisible_updateGroup_keep visible_setGroupOpacity)
qed

lemma modelVisible_completed_update:
  "modelVisible (w\<lparr>completed := c\<rparr>) k = modelVisible w k"
  by (simp add: modelVisible_def)

lemma modelVisible_render:
  "modelVisible (snd (render t tws w)) k =
     map_option (\<lambda>v. v \<and> \<not> hiddenBy t tws k) (modelVisible w k)"
proof (induction tws arbitrary: w)
  case Nil
  show ?case by (simp add: hiddenBy_def option.map_ident)
next
  case (Cons tw tws)
  have h: "hiddenBy t (tw # tws) k \<longleftrightarrow>
             (target tw = k \<and> kind tw = FadeOut \<and> tweenDue t tw) \<or> hiddenBy t tws k"
    by (simp add: hiddenBy_def)
  show ?case
    unfolding h
    by (cases "modelVisible w k")
       (auto simp: Cons.IH Let_def split_beta modelVisible_tweenUpdate modelVisible_tweenComplete
          modelVisible_completed_update tweenDue_def)
qed

lemma modelVisible_advance:
  "modelVisible (advance dt w) k =
     map_option (\<lambda>v. v \<and> \<not> hiddenBy (now w + dt) (tweens w) k) (modelVisible w k)"
  using modelVisible_render[of "now w + dt" "tweens w" w k]
  by (simp add: modelVisible_def models_advance)

lemma modelVisible_showModel:
  "modelVisible (showModel e w) k =
     (if currentModelId w \<noteq> Some e \<and> k = e then map_option (\<lambda>_. True) (modelVisible w k)
      else modelVisible w k)"
proof (cases "currentModelId w = Some e")
  case True
  then show ?thesis by (simp add: showModel_def)
next
  case False
  then show ?thesis
    by (simp add: modelVisible_def showModel_models option.map_comp o_def
        visible_set_visible)
qed

lemma modelVisible_hideAllModels:
  "modelVisible (hideAllModels w) k = map_option (\<lambda>_. False) (modelVisible w k)"
  by (simp add: modelVisible_def hideAllModels_fields option.map_comp o_def visible_set_visible)

text \<open>A fade-out that comes due hides its model, whatever was scheduled after it.\<close>

lemma stale_fade_out_hides:
  assumes "tw \<in> set (tweens w)" "kind tw = FadeOut" "tweenDue (now w + dt) tw"
    "models w (target tw) \<noteq> None"
  shows "modelVisible (advance dt w) (target tw) = Some False"
proof -
  have "hiddenBy (now w + dt) (tweens w) (target tw)"
    using assms by (auto simp: hiddenBy_def list_ex_iff)
  moreover from assms(4) obtain v where "modelVisible w (target tw) = Some v"
    by (auto simp: modelVisible_def)
  ultimately show ?thesis
    by (simp add: modelVisible_advance)
qed

section \<open>Invariants of the running application\<close>

lemma ERA_SECTIONS_eq_ERA_ORDER: "ERA_SECTIONS = ERA_ORDER"
  by (simp add: ERA_SECTIONS_def ERA_ORDER_def)

lemma models_dom_updateGroup: "(models (updateGroup k f w) k' = None) = (models w k' = None)"
  by (simp add: models_updateGroup)

lemma models_dom_render: "(models (snd (render t tws w)) k = None) = (models w k = None)"
  by (induction tws arbitrary: w)
     (auto simp: Let_def split_beta tweenUpdate_def tweenComplete_def models_dom_updateGroup
        split: fade.splits)

lemma models_dom_advance: "(models (advance dt w) k = None) = (models w k = None)"
  by (simp add: models_advance models_dom_render)

lemma models_dom_showModel: "(models (showModel e w) k = None) = (models w k = None)"
proof (cases "currentModelId w = Some e")
  case True
  then show ?thesis by (simp add: showModel_def)
next
  case False
  then show ?thesis by (simp add: showModel_models)
qed

lemma models_dom_hideAllModels: "(models (hideAllModels w) k = None) = (models w k = None)"
  by (simp add: hideAllModels_fields)

lemma models_dom_onSectionChange:
  "(models (onSectionChange n p w) k = None) = (models w k = None)"
  by (simp add: onSectionChange_def models_dom_showModel models_dom_hideAllModels)

lemma step_Enter_installed:
  assumes "installed a"
  shows "setActiveSection sectionId a =
     (if activeSection (fst a) = sectionId then a
      else ((fst a)\<lparr>activeSection := sectionId\<rparr>,
            onSectionChange sectionId (activeSection (fst a)) (snd a)))"
  using assms by (cases a) (simp add: installed_def setActiveSection_def Let_def)

lemma installed_step: "installed a \<Longrightarrow> installed (step a ev)"
proof (cases ev)
  case (Enter sectionId)
  assume "installed a"
  then show ?thesis
    using Enter by (simp add: step_Enter_installed) (simp add: installed_def)
next
  case (Frame dt)
  assume "installed a"
  then show ?thesis
    using Frame by (simp add: installed_def)
qed

lemma installed_foldl: "installed a \<Longrightarrow> installed (foldl step a evs)"
  by (induction evs arbitrary: a) (simp_all add: installed_step)

lemma installed_app_init: "installed (app_init built)"
  by (simp add: installed_def app_init_def setOnSectionChange_def)

lemma onSectionChange_current:
  "currentModelId (onSectionChange n p w) = (if n \<in> set ERA_ORDER then Some n else None)"
  by (simp add: onSectionChange_def showModel_current hideAllModels_fields)

lemma inSync_step:
  assumes "installed a" "inSync a"
  shows "inSync (step a ev)"
proof (cases ev)
  case (Enter sectionId)
  then show ?thesis
    using assms
    by (simp add: step_Enter_installed inSync_def onSectionChange_current split: option.splits)
next
  case (Frame dt)
  then show ?thesis
    using assms advance_timeline[of dt "snd a"] by (simp add: inSync_def split: option.splits)
qed

lemma inSync_foldl: "installed a \<Longrightarrow> inSync a \<Longrightarrow> inSync (foldl step a evs)"
  by (induction evs arbitrary: a) (simp_all add: installed_step inSync_step)

lemma models_dom_step:
  assumes "installed a"
  shows "(models (snd (step a ev)) k = None) = (models (snd a) k = None)"
  using assms
  by (cases ev) (simp_all add: step_Enter_installed models_dom_onSectionChange models_dom_advance)

lemma models_dom_foldl:
  "installed a \<Longrightarrow> (models (snd (foldl step a evs)) k = None) = (models (snd a) k = None)"
  by (induction evs arbitrary: a) (simp_all add: installed_step models_dom_step)

lemma reachable_invariants:
  "installed (run evs (app_init built)) \<and> inSync (run evs (app_init built)) \<and>
   ((models (snd (run evs (app_init built))) k = None) = (built k = None))"
proof -
  have "inSync (app_init built)"
    by (simp add: inSync_def app_init_def main_init_def)
  moreover have "models (snd (app_init built)) k = built k"
    by (simp add: app_init_def)
  ultimately show ?thesis
    by (simp add: run_def installed_foldl inSync_foldl models_dom_foldl installed_app_init)
qed

lemma tweens_advance:
  "tweens (advance dt w) = filter (\<lambda>tw. \<not> tweenDue (now w + dt) tw) (tweens w)"
  by (simp add: advance_timeline)

lemma completed_advance:
  "completed (advance dt w) = completed w @ filter (tweenDue (now w + dt)) (tweens w)"
  by (simp add: advance_timeline)

lemma now_advance: "now (advance dt w) = now w + dt"
  by (simp add: advance_timeline)

lemma currentModelId_advance: "currentModelId (advance dt w) = currentModelId w"
  by (simp add: advance_timeline)

lemma tweens_showModel: "tweens (showModel e w) = tweens w @ scheduled e w"
  by (simp add: showModel_timeline)

lemma completed_showModel: "completed (showModel e w) = completed w"
  by (simp add: showModel_timeline)

lemma now_showModel: "now (showModel e w) = now w"
  by (simp add: showModel_timeline)

lemmas timeline_eval =
  tweens_advance completed_advance now_advance currentModelId_advance
  tweens_showModel completed_showModel now_showModel showModel_current
  models_dom_advance models_dom_showModel models_dom_hideAllModels hideAllModels_fields(1-4)
  modelVisible_advance modelVisible_showModel modelVisible_hideAllModels
  scheduled_def tweenDue_def hiddenBy_def

lemma crossfade_state:
  "run crossfadeRun (app_init exampleModels) =
     ((setOnSectionChange onSectionChange scroll_init)\<lparr>activeSection := ''wheel''\<rparr>,
      advance 1 (showModel ''wheel'' (advance (1 / 10) (showModel ''steam''
        (advance 1 (showModel ''wheel'' (main_init\<lparr>models := exampleModels\<rparr>)))))))"
  by (simp add: crossfadeRun_def run_def app_init_def setActiveSection_def
      setOnSectionChange_def scroll_init_def onSectionChange_def ERA_ORDER_def)

lemma example_start:
  "currentModelId (main_init\<lparr>models := exampleModels\<rparr>) = None"
  "now (main_init\<lparr>models := exampleModels\<rparr>) = 0"
  "tweens (main_init\<lparr>models := exampleModels\<rparr>) = []"
  "completed (main_init\<lparr>models := exampleModels\<rparr>) = []"
  "exampleModels ''wheel'' \<noteq> None"
  "exampleModels ''steam'' \<noteq> None"
  "modelVisible (main_init\<lparr>models := exampleModels\<rparr>) ''wheel'' = Some False"
  "modelVisible (main_init\<lparr>models := exampleModels\<rparr>) ''steam'' = Some False"
  by (simp_all add: main_init_def exampleModels_def modelVisible_def exampleGroup_def)

text \<open>
  A property of groups that \<^verbatim>\<open>setGroupOpacity\<close> and a write of the visibility flag keep
  is kept, for the model under every key, by every event.
\<close>

lemma modelSatisfies_updateGroup:
  assumes "\<And>g. P g \<Longrightarrow> P (f g)"
  shows "modelSatisfies P w k \<Longrightarrow> modelSatisfies P (updateGroup k' f w) k"
  by (auto simp: modelSatisfies_def models_updateGroup assms split: option.splits)

lemma modelSatisfies_tweenUpdate:
  assumes "\<And>g v. P g \<Longrightarrow> P (setGroupOpacity g v)"
  shows "modelSatisfies P w k \<Longrightarrow> modelSatisfies P (tweenUpdate tw pr w) k"
  by (cases "kind tw") (simp_all add: tweenUpdate_def modelSatisfies_updateGroup assms)

lemma modelSatisfies_tweenComplete:
  assumes "\<And>g v. P g \<Longrightarrow> P (setGroupOpacity g v)" "\<And>g b. P g \<Longrightarrow> P (set_visible b g)"
  shows "modelSatisfies P w k \<Longrightarrow> modelSatisfies P (tweenComplete tw w) k"
  by (cases "kind tw") (simp_all add: tweenComplete_def modelSatisfies_updateGroup assms)

lemma modelSatisfies_completed_update:
  "modelSatisfies P (w\<lparr>completed := c\<rparr>) k = modelSatisfies P w k"
  by (simp add: modelSatisfies_def)

lemma modelSatisfies_render:
  assumes "\<And>g v. P g \<Longrightarrow> P (setGroupOpacity g v)" "\<And>g b. P g \<Longrightarrow> P (set_visible b g)"
  shows "modelSatisfies P w k \<Longrightarrow> modelSatisfies P (snd (render t tws w)) k"
proof (induction tws arbitrary: w)
  case Nil
  then show ?case by simp
next
  case (Cons tw tws)
  note u = modelSatisfies_tweenUpdate[of P, OF assms(1)]
  note c = modelSatisfies_tweenComplete[of P, OF assms]
  show ?case
    using Cons.prems
    by (auto simp: Let_def split_beta modelSatisfies_completed_update intro!: Cons.IH u c)
qed

lemma modelSatisfies_advance:
  assumes "\<And>g v. P g \<Longrightarrow> P (setGroupOpacity g v)" "\<And>g b. P g \<Longrightarrow> P (set_visible b g)"
  shows "modelSatisfies P w k \<Longrightarrow> modelSatisfies P (advance dt w) k"
  using modelSatisfies_render[of P w k "now w + dt" "tweens w", OF assms]
  by (simp add: modelSatisfies_def models_advance)

lemma modelSatisfies_showModel:
  assumes "\<And>g v. P g \<Longrightarrow> P (setGroupOpacity g v)" "\<And>g b. P g \<Longrightarrow> P (set_visible b g)"
  shows "modelSatisfies P w k \<Longrightarrow> modelSatisfies P (showModel e w) k"
proof (cases "currentModelId w = Some e")
  case True
  then show "modelSatisfies P w k \<Longrightarrow> ?thesis" by (simp add: showModel_def)
next
  case False
  then show "modelSatisfies P w k \<Longrightarrow> ?thesis"
    by (auto simp: modelSatisfies_def showModel_models assms split: option.splits)
qed





lemma nodes_set_visible_material:
  "map material (nodes (set_visible b g)) = map material (nodes g)"
  by (cases g) simp

lemma modelMaterials_hideAllModels: "modelMaterials (hideAllModels w) k = modelMaterials w k"
  by (simp add: modelMaterials_def hideAllModels_fields option.map_comp o_def
      nodes_set_visible_material)

section \<open>Properties of scrollController.js\<close>

text \<open>
  C2, as the code has it.  The initial state is the hero region, and its identifier is
  the literal \<^verbatim>\<open>hero\<close>: before any enter event \<^verbatim>\<open>getActiveSection\<close> returns \<^verbatim>\<open>hero\<close>, in
  the module as loaded and in the application as \<^verbatim>\<open>initApp\<close> leaves it; and the first
  transition, into \<^verbatim>\<open>steam\<close>, calls the installed observer once, with
  \<^verbatim>\<open>(steam, hero)\<close>.
\<close>

theorem initial_section_is_hero:
  "getActiveSection (scroll_init :: 'w scroll_state) = ''hero'' \<and>
   getActiveSection (fst (app_init built)) = ''hero'' \<and>
   setActiveSection ''steam'' (setOnSectionChange callback (scroll_init :: 'w scroll_state), w) =
     ((setOnSectionChange callback scroll_init)\<lparr>activeSection := ''steam''\<rparr>,
      callback ''steam'' ''hero'' w)"
  by (simp add: getActiveSection_def scroll_init_def app_init_def setOnSectionChange_def
      setActiveSection_def)

text \<open>The identifier is not \<^verbatim>\<open>idle\<close>, and the observer is not called with it.\<close>

theorem initial_section_idle_counterexample:
  "getActiveSection (scroll_init :: (string \<times> string) list scroll_state) \<noteq> ''idle'' \<and>
   snd (setActiveSection ''steam'' (setOnSectionChange recordingObserver scroll_init, [])) =
     [(''steam'', ''hero'')] \<and>
   snd (setActiveSection ''steam'' (setOnSectionChange recordingObserver scroll_init, [])) \<noteq>
     [(''steam'', ''idle'')]"
  by (simp add: getActiveSection_def scroll_init_def setOnSectionChange_def
      setActiveSection_def recordingObserver_def)

section \<open>Properties of the section switching\<close>

lemma wheelShown_state:
  "run wheelShown (app_init exampleModels) =
     ((setOnSectionChange onSectionChange scroll_init)\<lparr>activeSection := ''wheel''\<rparr>,
      advance 1 (showModel ''wheel'' (main_init\<lparr>models := exampleModels\<rparr>)))"
  by (simp add: wheelShown_def run_def app_init_def setActiveSection_def
      setOnSectionChange_def scroll_init_def onSectionChange_def ERA_ORDER_def)

lemma installed_run: "installed a \<Longrightarrow> installed (run evs a)"
  by (simp add: run_def installed_foldl)

text \<open>
  C3, as the code has it.  With \<^verbatim>\<open>onSectionChange\<close> installed, an enter event that
  names an id outside the era list, other than the active one, is handled like the hero
  region: the id becomes the active section, and \<^verbatim>\<open>hideAllModels\<close> runs, which turns the
  visibility of every model off at once and clears the current model.  It leaves every
  material, and so every opacity, the parts, the clock and the tweens as they were.
\<close>

theorem unknown_section_hides_all_models:
  assumes "installed (s, w)" "sectionId \<notin> set ERA_ORDER" "activeSection s \<noteq> sectionId"
  shows "setActiveSection sectionId (s, w) = (s\<lparr>activeSection := sectionId\<rparr>, hideAllModels w) \<and>
         getActiveSection (fst (setActiveSection sectionId (s, w))) = sectionId \<and>
         currentModelId (hideAllModels w) = None \<and>
         modelVisible (hideAllModels w) k = map_option (\<lambda>_. False) (modelVisible w k) \<and>
         modelMaterials (hideAllModels w) k = modelMaterials w k \<and>
         map_option modelParts (models (hideAllModels w) k) = map_option modelParts (models w k) \<and>
         tweens (hideAllModels w) = tweens w \<and>
         completed (hideAllModels w) = completed w \<and>
         now (hideAllModels w) = now w"
proof -
  have "setActiveSection sectionId (s, w) = (s\<lparr>activeSection := sectionId\<rparr>, hideAllModels w)"
    using assms step_Enter_installed[of "(s, w)" sectionId] by (simp add: onSectionChange_def)
  moreover have "map_option modelParts (models (hideAllModels w) k) =
      map_option modelParts (models w k)"
    by (simp add: hideAllModels_fields option.map_comp o_def)
  ultimately show ?thesis
    by (simp add: getActiveSection_def hideAllModels_fields modelVisible_hideAllModels
        modelMaterials_hideAllModels)
qed

lemma wheelShown_facts:
  "installed (run wheelShown (app_init exampleModels))"
  "activeSection (fst (run wheelShown (app_init exampleModels))) = ''wheel''"
  "modelVisible (snd (run wheelShown (app_init exampleModels))) ''wheel'' = Some True"
  "currentModelId (snd (run wheelShown (app_init exampleModels))) = Some ''wheel''"
  "tweens (snd (run wheelShown (app_init exampleModels))) = []"
proof -
  show "installed (run wheelShown (app_init exampleModels))"
    by (simp add: installed_run installed_app_init)
  show "activeSection (fst (run wheelShown (app_init exampleModels))) = ''wheel''"
    by (simp add: wheelShown_state)
  show "modelVisible (snd (run wheelShown (app_init exampleModels))) ''wheel'' = Some True"
    by (simp add: wheelShown_state timeline_eval example_start)
  show "currentModelId (snd (run wheelShown (app_init exampleModels))) = Some ''wheel''"
    by (simp add: wheelShown_state timeline_eval example_start)
  show "tweens (snd (run wheelShown (app_init exampleModels))) = []"
    by (simp add: wheelShown_state timeline_eval example_start)
qed

theorem unknown_section_hides_all_models_witness:
  "installed (run wheelShown (app_init exampleModels)) \<and>
   ''moon'' \<notin> set ERA_ORDER \<and>
   activeSection (fst (run wheelShown (app_init exampleModels))) \<noteq> ''moon'' \<and>
   getActiveSection (fst (step (run wheelShown (app_init exampleModels)) (Enter ''moon''))) =
     ''moon'' \<and>
   modelVisible (snd (step (run wheelShown (app_init exampleModels)) (Enter ''moon''))) ''wheel'' =
     Some False"
proof -
  obtain s w where sw: "run wheelShown (app_init exampleModels) = (s, w)"
    by (cases "run wheelShown (app_init exampleModels)")
  have h: "installed (s, w)" "''moon'' \<notin> set ERA_ORDER" "activeSection s \<noteq> ''moon''"
    using wheelShown_facts(1,2) sw by (simp_all add: ERA_ORDER_def)
  have v: "modelVisible w ''wheel'' = Some True"
    using wheelShown_facts(3) sw by simp
  note t = unknown_section_hides_all_models[OF h, of "''wheel''"]
  from t have "setActiveSection ''moon'' (s, w) = (s\<lparr>activeSection := ''moon''\<rparr>, hideAllModels w)"
    and "modelVisible (hideAllModels w) ''wheel'' = map_option (\<lambda>_. False) (modelVisible w ''wheel'')"
    by blast+
  then show ?thesis
    using h v sw by (simp add: getActiveSection_def)
qed

text \<open>
  After the wheel has been shown, an enter event for the unknown id \<^verbatim>\<open>moon\<close> changes the
  active section and hides the wheel.
\<close>

theorem unknown_section_noop_counterexample:
  "getActiveSection (fst (run wheelShown (app_init exampleModels))) = ''wheel'' \<and>
   modelVisible (snd (run wheelShown (app_init exampleModels))) ''wheel'' = Some True \<and>
   getActiveSection (fst (run (wheelShown @ [Enter ''moon'']) (app_init exampleModels))) =
     ''moon'' \<and>
   modelVisible (snd (run (wheelShown @ [Enter ''moon'']) (app_init exampleModels))) ''wheel'' =
     Some False"
proof -
  have "run (wheelShown @ [Enter ''moon'']) (app_init exampleModels) =
      ((setOnSectionChange onSectionChange scroll_init)\<lparr>activeSection := ''moon''\<rparr>,
       hideAllModels (advance 1 (showModel ''wheel'' (main_init\<lparr>models := exampleModels\<rparr>))))"
    by (simp add: wheelShown_def run_def app_init_def setActiveSection_def
        setOnSectionChange_def scroll_init_def onSectionChange_def ERA_ORDER_def)
  then show ?thesis
    by (simp add: wheelShown_state getActiveSection_def timeline_eval example_start)
qed

text \<open>
  C5.  An enter event for the section that is already active changes nothing: not the
  active section, not what the observer has seen, not the models, not the tweens.  So of
  two enter events for the same section the second is void, whatever the state and the
  observer; the first, from another section, calls the observer once, with the new and
  the previous id.  \<^verbatim>\<open>showModel\<close> has the same guard: called again for the current model
  it starts no fade.  In the application, started by \<^verbatim>\<open>initApp\<close> and run through any
  events, entering \<^verbatim>\<open>wheel\<close> twice from another section adds one fade-in tween for the
  wheel's model, and no other fade-in.
\<close>

theorem reentering_active_section_is_void:
  "(activeSection s = sectionId \<longrightarrow> setActiveSection sectionId (s, w) = (s, w)) \<and>
   setActiveSection sectionId (setActiveSection sectionId (s, w)) =
     setActiveSection sectionId (s, w) \<and>
   showModel sectionId (showModel sectionId w') = showModel sectionId w' \<and>
   (activeSection s \<noteq> sectionId \<and> onSectionChangeCallback s = Some callback \<longrightarrow>
      setActiveSection sectionId (setActiveSection sectionId (s, w)) =
        (s\<lparr>activeSection := sectionId\<rparr>, callback sectionId (activeSection s) w)) \<and>
   (getActiveSection (fst (run evs (app_init built))) \<noteq> ''wheel'' \<and> built ''wheel'' \<noteq> None \<longrightarrow>
      filter (\<lambda>tw. kind tw = FadeIn)
        (tweens (snd (run (evs @ [Enter ''wheel'', Enter ''wheel'']) (app_init built)))) =
      filter (\<lambda>tw. kind tw = FadeIn) (tweens (snd (run evs (app_init built)))) @
        [\<lparr>target = ''wheel'', kind = FadeIn,
          startTime = now (snd (run evs (app_init built))) + 1 / 10, duration = 4 / 10\<rparr>])"
proof -
  have idem: "setActiveSection sectionId (setActiveSection sectionId (s, w)) =
     setActiveSection sectionId (s, w)"
    by (simp add: setActiveSection_def Let_def)
  have once: "setActiveSection sectionId (setActiveSection sectionId (s, w)) =
        (s\<lparr>activeSection := sectionId\<rparr>, callback sectionId (activeSection s) w)"
    if "activeSection s \<noteq> sectionId" "onSectionChangeCallback s = Some callback"
    using that by (simp add: setActiveSection_def Let_def)
  have app: "filter (\<lambda>tw. kind tw = FadeIn)
        (tweens (snd (run (evs @ [Enter ''wheel'', Enter ''wheel'']) (app_init built)))) =
      filter (\<lambda>tw. kind tw = FadeIn) (tweens (snd (run evs (app_init built)))) @
        [\<lparr>target = ''wheel'', kind = FadeIn,
          startTime = now (snd (run evs (app_init built))) + 1 / 10, duration = 4 / 10\<rparr>]"
    if act: "getActiveSection (fst (run evs (app_init built))) \<noteq> ''wheel''"
      and built: "built ''wheel'' \<noteq> None"
  proof -
    define a where "a = run evs (app_init built)"
    have inv: "installed a" "inSync a" "models (snd a) ''wheel'' \<noteq> None"
      using reachable_invariants[of evs built "''wheel''"] built by (simp_all add: a_def)
    have act': "activeSection (fst a) \<noteq> ''wheel''"
      using act by (simp add: a_def getActiveSection_def)
    have cur: "currentModelId (snd a) \<noteq> Some ''wheel''"
      using inv(2) act' by (auto simp: inSync_def)
    have "run (evs @ [Enter ''wheel'', Enter ''wheel'']) (app_init built) =
            setActiveSection ''wheel'' (setActiveSection ''wheel'' a)"
      by (simp add: run_def a_def)
    also have "\<dots> = setActiveSection ''wheel'' a"
      by (cases a) (simp add: setActiveSection_def Let_def)
    also have "\<dots> = ((fst a)\<lparr>activeSection := ''wheel''\<rparr>, showModel ''wheel'' (snd a))"
      using inv(1) act' by (simp add: step_Enter_installed onSectionChange_def ERA_ORDER_def)
    finally have "tweens (snd (run (evs @ [Enter ''wheel'', Enter ''wheel'']) (app_init built))) =
        tweens (snd a) @ scheduled ''wheel'' (snd a)"
      by (simp add: tweens_showModel)
    moreover have "filter (\<lambda>tw. kind tw = FadeIn) (scheduled ''wheel'' (snd a)) =
        [\<lparr>target = ''wheel'', kind = FadeIn, startTime = now (snd a) + 1 / 10, duration = 4 / 10\<rparr>]"
      using cur inv(3) by (auto simp: scheduled_def split: option.splits)
    ultimately show ?thesis
      by (simp add: a_def)
  qed
  show ?thesis
    using idem once app showModel_idem by (simp add: setActiveSection_def)
qed

theorem reentering_active_section_is_void_witness:
  "activeSection (scroll_init :: (string \<times> string) list scroll_state) \<noteq> ''wheel'' \<and>
   snd (setActiveSection ''wheel'' (setActiveSection ''wheel''
          (setOnSectionChange recordingObserver scroll_init, []))) = [(''wheel'', ''hero'')] \<and>
   getActiveSection (fst (run [] (app_init exampleModels))) \<noteq> ''wheel'' \<and>
   exampleModels ''wheel'' \<noteq> None \<and>
   tweens (snd (run ([] @ [Enter ''wheel'', Enter ''wheel'']) (app_init exampleModels))) =
     [\<lparr>target = ''wheel'', kind = FadeIn, startTime = 1 / 10, duration = 4 / 10\<rparr>]"
proof -
  define s0 where
    "s0 = setOnSectionChange recordingObserver (scroll_init :: (string \<times> string) list scroll_state)"
  have h1: "activeSection s0 \<noteq> ''wheel'' \<and> onSectionChangeCallback s0 = Some recordingObserver"
    by (simp add: s0_def scroll_init_def setOnSectionChange_def)
  have h2: "getActiveSection (fst (run [] (app_init exampleModels))) \<noteq> ''wheel'' \<and>
      exampleModels ''wheel'' \<noteq> None"
    by (simp add: run_def app_init_def getActiveSection_def setOnSectionChange_def
        scroll_init_def example_start)
  note t = reentering_active_section_is_void
    [of s0 "''wheel''" "[]" main_init recordingObserver "[]" exampleModels]
  from t h1 have "setActiveSection ''wheel'' (setActiveSection ''wheel'' (s0, [])) =
      (s0\<lparr>activeSection := ''wheel''\<rparr>, recordingObserver ''wheel'' (activeSection s0) [])"
    by blast
  then have a: "snd (setActiveSection ''wheel'' (setActiveSection ''wheel'' (s0, []))) =
      [(''wheel'', ''hero'')]"
    by (simp add: recordingObserver_def s0_def scroll_init_def setOnSectionChange_def)
  from t h2 have "filter (\<lambda>tw. kind tw = FadeIn)
        (tweens (snd (run ([] @ [Enter ''wheel'', Enter ''wheel'']) (app_init exampleModels)))) =
      filter (\<lambda>tw. kind tw = FadeIn) (tweens (snd (run [] (app_init exampleModels)))) @
        [\<lparr>target = ''wheel'', kind = FadeIn,
          startTime = now (snd (run [] (app_init exampleModels))) + 1 / 10, duration = 4 / 10\<rparr>]"
    by blast
  moreover have "run ([] @ [Enter ''wheel'', Enter ''wheel'']) (app_init exampleModels) =
      ((setOnSectionChange onSectionChange scroll_init)\<lparr>activeSection := ''wheel''\<rparr>,
       showModel ''wheel'' (main_init\<lparr>models := exampleModels\<rparr>))"
    by (simp add: run_def app_init_def setActiveSection_def
        setOnSectionChange_def scroll_init_def onSectionChange_def ERA_ORDER_def)
  ultimately have b:
    "tweens (snd (run ([] @ [Enter ''wheel'', Enter ''wheel'']) (app_init exampleModels))) =
     [\<lparr>target = ''wheel'', kind = FadeIn, startTime = 1 / 10, duration = 4 / 10\<rparr>]"
    by (simp add: timeline_eval example_start)
  from a b h2 show ?thesis
    by (simp add: s0_def scroll_init_def)
qed

section \<open>Fades run to completion\<close>

lemma parts_updateGroup:
  "map_option modelParts (models (updateGroup k' f w) k) = map_option modelParts (models w k)"
  by (simp add: models_updateGroup option.map_comp o_def)

lemma parts_tweenUpdate:
  "map_option modelParts (models (tweenUpdate tw pr w) k) = map_option modelParts (models w k)"
  by (cases "kind tw") (simp_all add: tweenUpdate_def parts_updateGroup)

lemma parts_tweenComplete:
  "map_option modelParts (models (tweenComplete tw w) k) = map_option modelParts (models w k)"
  by (cases "kind tw") (simp_all add: tweenComplete_def parts_updateGroup)

lemma parts_render:
  "map_option modelParts (models (snd (render t tws w)) k) = map_option modelParts (models w k)"
proof (induction tws arbitrary: w)
  case Nil
  show ?case by simp
next
  case (Cons tw tws)
  show ?case
    by (simp add: Let_def split_beta Cons.IH parts_tweenUpdate parts_tweenComplete)
qed

lemma parts_advance:
  "map_option modelParts (models (advance dt w) k) = map_option modelParts (models w k)"
  by (simp add: models_advance parts_render)

lemma parts_showModel:
  "map_option modelParts (models (showModel e w) k) = map_option modelParts (models w k)"
proof (cases "currentModelId w = Some e")
  case True
  then show ?thesis by (simp add: showModel_def)
next
  case False
  then show ?thesis
    by (simp add: showModel_models option.map_comp o_def)
qed

text \<open>Both completion callbacks end with \<^verbatim>\<open>setGroupOpacity(group, 1)\<close>.\<close>

lemma modelOpacityIs_tweenComplete:
  "modelPlain w (target tw) \<Longrightarrow> modelOpacityIs 1 (tweenComplete tw w) (target tw)"
  by (cases "kind tw")
     (auto simp: modelPlain_def modelOpacityIs_def modelSatisfies_def tweenComplete_def
        models_updateGroup groupOpacityIs_setGroupOpacity plainLines_set_visible
        split: option.splits)

lemma modelPlain_tweenUpdate: "modelPlain w k \<Longrightarrow> modelPlain (tweenUpdate tw pr w) k"
  unfolding modelPlain_def
  by (rule modelSatisfies_tweenUpdate) (simp_all add: plainLines_setGroupOpacity)

lemma modelPlain_tweenComplete: "modelPlain w k \<Longrightarrow> modelPlain (tweenComplete tw w) k"
  unfolding modelPlain_def
  by (rule modelSatisfies_tweenComplete)
     (simp_all add: plainLines_setGroupOpacity plainLines_set_visible)

lemma modelPlain_advance: "modelPlain w k \<Longrightarrow> modelPlain (advance dt w) k"
  unfolding modelPlain_def
  by (rule modelSatisfies_advance)
     (simp_all add: plainLines_setGroupOpacity plainLines_set_visible)

lemma modelPlain_showModel: "modelPlain w k \<Longrightarrow> modelPlain (showModel e w) k"
  unfolding modelPlain_def
  by (rule modelSatisfies_showModel)
     (simp_all add: plainLines_setGroupOpacity plainLines_set_visible)

lemma render_Cons_other:
  "target tw \<noteq> k \<Longrightarrow>
   \<exists>wX. snd (render t (tw # tws) w) = snd (render t tws wX) \<and> models wX k = models w k"
  by (auto simp: Let_def split_beta models_tweenUpdate_other models_tweenComplete_other)

text \<open>
  One tick over tweens of which all those on the model under \<^verbatim>\<open>k\<close> are due: the last of
  them to run completes, and leaves the model at opacity 1.
\<close>

lemma render_all_due:
  assumes "\<forall>tw \<in> set tws. target tw = k \<longrightarrow> tweenDue t tw"
    and "modelPlain w k"
    and "(\<exists>tw \<in> set tws. target tw = k) \<or> modelOpacityIs 1 w k"
  shows "modelOpacityIs 1 (snd (render t tws w)) k"
  using assms
proof (induction tws arbitrary: w)
  case Nil
  then show ?case by simp
next
  case (Cons tw tws)
  show ?case
  proof (cases "target tw = k")
    case True
    with Cons.prems(1) have due: "tweenDue t tw" by simp
    define w1 where
      "w1 = (tweenComplete tw (tweenUpdate tw (tweenProgress tw t) w))
              \<lparr>completed := completed (tweenUpdate tw (tweenProgress tw t) w) @ [tw]\<rparr>"
    have r: "render t (tw # tws) w = render t tws w1"
      using due by (simp add: tweenDue_def Let_def w1_def)
    have p1: "modelPlain w1 k"
      using Cons.prems(2)
      by (simp add: w1_def modelPlain_def modelSatisfies_completed_update
          modelPlain_tweenUpdate[unfolded modelPlain_def]
          modelPlain_tweenComplete[unfolded modelPlain_def])
    have o1: "modelOpacityIs 1 w1 k"
      using modelOpacityIs_tweenComplete[of "tweenUpdate tw (tweenProgress tw t) w" tw]
        modelPlain_tweenUpdate[OF Cons.prems(2), of tw "tweenProgress tw t"] True
      by (simp add: w1_def modelOpacityIs_def modelSatisfies_completed_update)
    show ?thesis
      unfolding r using Cons.IH[of w1] Cons.prems(1) p1 o1 by simp
  next
    case False
    from render_Cons_other[OF False, of t tws w] obtain wX where
      wX: "snd (render t (tw # tws) w) = snd (render t tws wX)" "models wX k = models w k"
      by blast
    from Cons.prems(1) have all: "\<forall>tw \<in> set tws. target tw = k \<longrightarrow> tweenDue t tw"
      by simp
    from Cons.prems(2) wX(2) have pX: "modelPlain wX k"
      by (simp add: modelPlain_def modelSatisfies_def)
    from Cons.prems(3) False wX(2)
    have alt: "(\<exists>tw \<in> set tws. target tw = k) \<or> modelOpacityIs 1 wX k"
      by (auto simp: modelOpacityIs_def modelSatisfies_def)
    show ?thesis
      unfolding wX(1) by (rule Cons.IH[OF all pX alt])
  qed
qed

lemma advance_all_due:
  assumes "modelPlain w k" "\<exists>tw \<in> set (tweens w). target tw = k"
    and "\<forall>tw \<in> set (tweens w). target tw = k \<longrightarrow> tweenDue (now w + dt) tw"
  shows "modelOpacityIs 1 (advance dt w) k"
  using render_all_due[of "tweens w" k "now w + dt" w] assms
  by (simp add: modelOpacityIs_def modelSatisfies_def models_advance)

text \<open>The state of an undisturbed fade-in is kept by every tick.\<close>

lemma fadeInPending_advance:
  assumes I: "fadeInPending fi pl w" and k: "kind fi = FadeIn" and d: "0 \<le> duration fi"
  shows "fadeInPending fi pl (advance dt w)"
proof -
  let ?e = "target fi"
  let ?t = "now w + dt"
  from I have only: "\<forall>tw \<in> set (tweens w). target tw = ?e \<longrightarrow> tw = fi"
    and vis: "modelVisible w ?e = Some True"
    and pln: "pl \<longrightarrow> modelPlain w ?e"
    and fin: "pl \<longrightarrow> fi \<notin> set (tweens w) \<longrightarrow> modelOpacityIs 1 w ?e"
    by (simp_all add: fadeInPending_def)
  have tw': "tweens (advance dt w) = filter (\<lambda>tw. \<not> tweenDue ?t tw) (tweens w)"
    by (rule tweens_advance)
  have a: "\<forall>tw \<in> set (tweens (advance dt w)). target tw = ?e \<longrightarrow> tw = fi"
    using only by (simp add: tw')
  have "\<not> hiddenBy ?t (tweens w) ?e"
    using only k by (auto simp: hiddenBy_def list_ex_iff)
  then have b: "modelVisible (advance dt w) ?e = Some True"
    using vis by (simp add: modelVisible_advance)
  have c: "fi \<in> set (tweens (advance dt w)) \<longrightarrow>
      now (advance dt w) < startTime fi + duration fi"
    using d by (auto simp: tw' now_advance tweenDue_def)
  have p: "pl \<longrightarrow> modelPlain (advance dt w) ?e"
    using pln modelPlain_advance by blast
  have o: "modelOpacityIs 1 (advance dt w) ?e" if pl: pl and gone: "fi \<notin> set (tweens (advance dt w))"
  proof (cases "fi \<in> set (tweens w)")
    case True
    with gone have "tweenDue ?t fi" by (simp add: tw')
    with only have "\<forall>tw \<in> set (tweens w). target tw = ?e \<longrightarrow> tweenDue ?t tw"
      by auto
    moreover from True have "\<exists>tw \<in> set (tweens w). target tw = ?e" by auto
    ultimately show ?thesis
      using advance_all_due[of w ?e dt] pln pl by blast
  next
    case False
    with only have "\<forall>tw \<in> set (tweens w). target tw \<noteq> ?e" by auto
    then have "models (advance dt w) ?e = models w ?e"
      by (simp add: models_advance render_models_other)
    with fin pl False show ?thesis
      by (simp add: modelOpacityIs_def modelSatisfies_def)
  qed
  from o have o': "pl \<longrightarrow> fi \<notin> set (tweens (advance dt w)) \<longrightarrow>
      modelOpacityIs 1 (advance dt w) ?e"
    by simp
  show ?thesis
    unfolding fadeInPending_def by (rule conjI[OF a conjI[OF b conjI[OF c conjI[OF p o']]]])
qed

lemma run_frames:
  "run (map Frame dts) (s, w) = (s, foldl (\<lambda>w dt. advance dt w) w dts)"
  by (induction dts arbitrary: w) (simp_all add: run_def)

lemma now_frames: "now (foldl (\<lambda>w dt. advance dt w) w dts) = now w + sum_list dts"
  by (induction dts arbitrary: w) (simp_all add: now_advance)

lemma parts_frames:
  "map_option modelParts (models (foldl (\<lambda>w dt. advance dt w) w dts) k) =
     map_option modelParts (models w k)"
  by (induction dts arbitrary: w) (simp_all add: parts_advance)

lemma fadeInPending_frames:
  assumes "fadeInPending fi pl w" "kind fi = FadeIn" "0 \<le> duration fi"
  shows "fadeInPending fi pl (foldl (\<lambda>w dt. advance dt w) w dts)"
  using assms(1)
  by (induction dts arbitrary: w) (simp_all add: fadeInPending_advance assms(2,3))

text \<open>\<^verbatim>\<open>showModel\<close> on a model that no tween targets starts an undisturbed fade-in.\<close>

lemma fadeInPending_showModel:
  assumes m: "models w e = Some m"
    and cur: "currentModelId w \<noteq> Some e"
    and no: "\<forall>tw \<in> set (tweens w). target tw \<noteq> e"
  shows "fadeInPending
           \<lparr>target = e, kind = FadeIn, startTime = now w + 1 / 10, duration = 4 / 10\<rparr>
           (plainLines (modelGroup m)) (showModel e w)"
proof -
  define fi where
    "fi = \<lparr>target = e, kind = FadeIn, startTime = now w + 1 / 10, duration = 4 / 10\<rparr>"
  from scheduled_snoc[of w e] m cur obtain pre where
    pre: "scheduled e w = pre @ [fi]" "\<forall>tw \<in> set pre. target tw \<noteq> e"
    by (auto simp: fi_def)
  have tl: "tweens (showModel e w) = (tweens w @ pre) @ [fi]"
    using pre by (simp add: tweens_showModel)
  have a: "\<forall>tw \<in> set (tweens (showModel e w)). target tw = target fi \<longrightarrow> tw = fi"
    using no pre(2) by (auto simp: tl fi_def)
  have "modelVisible w e = Some (visible (modelGroup m))"
    using m by (simp add: modelVisible_def)
  then have b: "modelVisible (showModel e w) (target fi) = Some True"
    using cur by (simp add: modelVisible_showModel fi_def)
  have c: "now (showModel e w) < startTime fi + duration fi"
    by (simp add: now_showModel fi_def)
  have "modelPlain w e" if "plainLines (modelGroup m)"
    using that m by (simp add: modelPlain_def modelSatisfies_def)
  then have p: "plainLines (modelGroup m) \<longrightarrow> modelPlain (showModel e w) (target fi)"
    using modelPlain_showModel by (auto simp: fi_def)
  have i: "fi \<in> set (tweens (showModel e w))"
    by (simp add: tl)
  from i c have c': "fi \<in> set (tweens (showModel e w)) \<longrightarrow>
      now (showModel e w) < startTime fi + duration fi"
    by simp
  from i have o: "plainLines (modelGroup m) \<longrightarrow> fi \<notin> set (tweens (showModel e w)) \<longrightarrow>
      modelOpacityIs 1 (showModel e w) (target fi)"
    by simp
  show ?thesis
    unfolding fadeInPending_def fi_def[symmetric]
    by (rule conjI[OF a conjI[OF b conjI[OF c' conjI[OF p o]]]])
qed

lemma lone_fade_in_frames:
  assumes m: "models w e = Some m"
    and cur: "currentModelId w \<noteq> Some e"
    and no: "\<forall>tw \<in> set (tweens w). target tw \<noteq> e"
  shows "modelVisible (snd (run (map Frame dts) (s, showModel e w))) e = Some True \<and>
         map_option modelParts (models (snd (run (map Frame dts) (s, showModel e w))) e) =
           Some (modelParts m) \<and>
         (1 / 2 \<le> sum_list dts \<longrightarrow>
            (\<forall>tw \<in> set (tweens (snd (run (map Frame dts) (s, showModel e w)))). target tw \<noteq> e) \<and>
            (plainLines (modelGroup m) \<longrightarrow>
               modelOpacityIs 1 (snd (run (map Frame dts) (s, showModel e w))) e))"
proof -
  define fi where
    "fi = \<lparr>target = e, kind = FadeIn, startTime = now w + 1 / 10, duration = 4 / 10\<rparr>"
  define w' where "w' = foldl (\<lambda>w dt. advance dt w) (showModel e w) dts"
  have w': "snd (run (map Frame dts) (s, showModel e w)) = w'"
    by (simp add: run_frames w'_def)
  have fi: "target fi = e" "kind fi = FadeIn" "0 \<le> duration fi"
    "startTime fi + duration fi = now w + 1 / 2"
    by (simp_all add: fi_def)
  have "fadeInPending fi (plainLines (modelGroup m)) (showModel e w)"
    unfolding fi_def by (rule fadeInPending_showModel[OF m cur no])
  then have I: "fadeInPending fi (plainLines (modelGroup m)) w'"
    unfolding w'_def by (rule fadeInPending_frames) (simp_all add: fi)
  have nw: "now w' = now w + sum_list dts"
    by (simp add: w'_def now_frames now_showModel)
  have v: "modelVisible w' e = Some True"
    using I fi(1) by (simp add: fadeInPending_def)
  have ps: "map_option modelParts (models w' e) = Some (modelParts m)"
    using m by (simp add: w'_def parts_frames parts_showModel)
  have late: "(\<forall>tw \<in> set (tweens w'). target tw \<noteq> e) \<and>
      (plainLines (modelGroup m) \<longrightarrow> modelOpacityIs 1 w' e)"
    if "1 / 2 \<le> sum_list dts"
  proof -
    from I have "fi \<in> set (tweens w') \<longrightarrow> now w' < startTime fi + duration fi"
      by (simp add: fadeInPending_def)
    with that nw fi(4) have gone: "fi \<notin> set (tweens w')"
      by auto
    from I have "\<forall>tw \<in> set (tweens w'). target tw = e \<longrightarrow> tw = fi"
      using fi(1) by (simp add: fadeInPending_def)
    with gone have "\<forall>tw \<in> set (tweens w'). target tw \<noteq> e"
      by auto
    moreover from I gone fi(1)
    have "plainLines (modelGroup m) \<longrightarrow> modelOpacityIs 1 w' e"
      by (simp add: fadeInPending_def)
    ultimately show ?thesis by simp
  qed
  from late have late': "1 / 2 \<le> sum_list dts \<longrightarrow>
      (\<forall>tw \<in> set (tweens w'). target tw \<noteq> e) \<and>
      (plainLines (modelGroup m) \<longrightarrow> modelOpacityIs 1 w' e)"
    by (rule impI)
  show ?thesis
    unfolding w' by (rule conjI[OF v conjI[OF ps late']])
qed

lemma wheelFading_state:
  "run wheelFading (app_init exampleModels) =
     ((setOnSectionChange onSectionChange scroll_init)\<lparr>activeSection := ''wheel''\<rparr>,
      advance (2 / 10) (showModel ''wheel'' (main_init\<lparr>models := exampleModels\<rparr>)))"
  by (simp add: wheelFading_def run_def app_init_def setActiveSection_def
      setOnSectionChange_def scroll_init_def onSectionChange_def ERA_ORDER_def)

lemma wheelFading_facts:
  "currentModelId (snd (run wheelFading (app_init exampleModels))) = Some ''wheel''"
  "tweens (snd (run wheelFading (app_init exampleModels))) =
     [\<lparr>target = ''wheel'', kind = FadeIn, startTime = 1 / 10, duration = 4 / 10\<rparr>]"
  "now (snd (run wheelFading (app_init exampleModels))) = 2 / 10"
  "completed (snd (run wheelFading (app_init exampleModels))) = []"
  "models (snd (run wheelFading (app_init exampleModels))) ''steam'' =
     Some \<lparr>modelGroup = exampleGroup, modelParts = []\<rparr>"
proof -
  let ?w0 = "main_init\<lparr>models := exampleModels\<rparr>"
  show "currentModelId (snd (run wheelFading (app_init exampleModels))) = Some ''wheel''"
    by (simp add: wheelFading_state timeline_eval example_start)
  show "tweens (snd (run wheelFading (app_init exampleModels))) =
     [\<lparr>target = ''wheel'', kind = FadeIn, startTime = 1 / 10, duration = 4 / 10\<rparr>]"
    by (simp add: wheelFading_state timeline_eval example_start)
  show "now (snd (run wheelFading (app_init exampleModels))) = 2 / 10"
    by (simp add: wheelFading_state timeline_eval example_start)
  show "completed (snd (run wheelFading (app_init exampleModels))) = []"
    by (simp add: wheelFading_state timeline_eval example_start)
  have "tweens (showModel ''wheel'' ?w0) =
      [\<lparr>target = ''wheel'', kind = FadeIn, startTime = 1 / 10, duration = 4 / 10\<rparr>]"
    by (simp add: timeline_eval example_start)
  then have "\<forall>tw \<in> set (tweens (showModel ''wheel'' ?w0)). target tw \<noteq> ''steam''"
    by simp
  then have "models (advance (2 / 10) (showModel ''wheel'' ?w0)) ''steam'' =
      models (showModel ''wheel'' ?w0) ''steam''"
    by (simp add: models_advance render_models_other)
  also have "\<dots> = exampleModels ''steam''"
    by (simp add: showModel_models example_start(1))
  also have "\<dots> = Some \<lparr>modelGroup = exampleGroup, modelParts = []\<rparr>"
    by (simp add: exampleModels_def)
  finally show "models (snd (run wheelFading (app_init exampleModels))) ''steam'' =
     Some \<lparr>modelGroup = exampleGroup, modelParts = []\<rparr>"
    unfolding wheelFading_state snd_conv .
qed

text \<open>
  C1, as the code has it.  Starting a fade on a model cancels nothing.  \<^verbatim>\<open>showModel\<close>
  only adds its tweens at the end of the timeline, and neither it nor \<^verbatim>\<open>hideAllModels\<close>
  removes a tween or a completion.  The ticker completes every tween that has come due,
  once, in the order the tweens were made, whatever was scheduled after them, and only
  those tweens leave the timeline.  Completing a tween is running its callbacks on the
  scene: the completion of a fade-out hides its model, that of a fade-in leaves the
  visibility as it is, and both leave the model at opacity 1 and every other model as it
  was; a tick on a due tween is \<^verbatim>\<open>onUpdate\<close> at progress 1, then \<^verbatim>\<open>onComplete\<close>; so after
  a tick a model is visible only if it was and no fade-out on it has come due, and a model
  all of whose fades have come due stands at opacity 1.  A fade-in started by \<^verbatim>\<open>showModel\<close>
  on a model that no tween on the timeline targets keeps the model visible through every
  run of frames, with the parts it had; and once the frames add up to half a second, no
  tween on the model is left and the model stands at opacity 1.  Opacity is that of the
  materials themselves, in a model none of whose line-segments objects holds an array of
  materials.
\<close>

theorem fades_run_to_completion:
  "tweens (showModel e w) = tweens w @ scheduled e w \<and>
   completed (showModel e w) = completed w \<and>
   tweens (hideAllModels w) = tweens w \<and>
   completed (hideAllModels w) = completed w \<and>
   tweens (advance dt w) = filter (\<lambda>tw. \<not> tweenDue (now w + dt) tw) (tweens w) \<and>
   completed (advance dt w) = completed w @ filter (tweenDue (now w + dt)) (tweens w) \<and>
   modelVisible (tweenComplete tw w) k =
     (if target tw = k \<and> kind tw = FadeOut then map_option (\<lambda>_. False) (modelVisible w k)
      else modelVisible w k) \<and>
   (modelPlain w (target tw) \<longrightarrow> modelOpacityIs 1 (tweenComplete tw w) (target tw)) \<and>
   (target tw \<noteq> k \<longrightarrow> models (tweenComplete tw w) k = models w k) \<and>
   (tweenDue t tw \<longrightarrow>
      snd (render t [tw] w) =
        (tweenComplete tw (tweenUpdate tw 1 w))\<lparr>completed := completed w @ [tw]\<rparr>) \<and>
   modelVisible (advance dt w) k =
     map_option (\<lambda>v. v \<and> \<not> hiddenBy (now w + dt) (tweens w) k) (modelVisible w k) \<and>
   (modelPlain w k \<and> (\<exists>tw \<in> set (tweens w). target tw = k) \<and>
    (\<forall>tw \<in> set (tweens w). target tw = k \<longrightarrow> tweenDue (now w + dt) tw) \<longrightarrow>
      modelOpacityIs 1 (advance dt w) k) \<and>
   (models w e = Some m \<and> currentModelId w \<noteq> Some e \<and>
    (\<forall>tw \<in> set (tweens w). target tw \<noteq> e) \<longrightarrow>
      modelVisible (snd (run (map Frame dts) (s, showModel e w))) e = Some True \<and>
      map_option modelParts (models (snd (run (map Frame dts) (s, showModel e w))) e) =
        Some (modelParts m) \<and>
      (1 / 2 \<le> sum_list dts \<longrightarrow>
         (\<forall>tw \<in> set (tweens (snd (run (map Frame dts) (s, showModel e w)))). target tw \<noteq> e) \<and>
         (plainLines (modelGroup m) \<longrightarrow>
            modelOpacityIs 1 (snd (run (map Frame dts) (s, showModel e w))) e)))"
proof -
  have c8: "modelPlain w (target tw) \<longrightarrow> modelOpacityIs 1 (tweenComplete tw w) (target tw)"
    using modelOpacityIs_tweenComplete by blast
  have c9: "target tw \<noteq> k \<longrightarrow> models (tweenComplete tw w) k = models w k"
    using models_tweenComplete_other by blast
  have c10: "tweenDue t tw \<longrightarrow>
      snd (render t [tw] w) =
        (tweenComplete tw (tweenUpdate tw 1 w))\<lparr>completed := completed w @ [tw]\<rparr>"
    using render_single_due by blast
  have c12: "modelPlain w k \<and> (\<exists>tw \<in> set (tweens w). target tw = k) \<and>
    (\<forall>tw \<in> set (tweens w). target tw = k \<longrightarrow> tweenDue (now w + dt) tw) \<longrightarrow>
      modelOpacityIs 1 (advance dt w) k"
    using advance_all_due[of w k dt] by blast
  have c13: "models w e = Some m \<and> currentModelId w \<noteq> Some e \<and>
    (\<forall>tw \<in> set (tweens w). target tw \<noteq> e) \<longrightarrow>
      modelVisible (snd (run (map Frame dts) (s, showModel e w))) e = Some True \<and>
      map_option modelParts (models (snd (run (map Frame dts) (s, showModel e w))) e) =
        Some (modelParts m) \<and>
      (1 / 2 \<le> sum_list dts \<longrightarrow>
         (\<forall>tw \<in> set (tweens (snd (run (map Frame dts) (s, showModel e w)))). target tw \<noteq> e) \<and>
         (plainLines (modelGroup m) \<longrightarrow>
            modelOpacityIs 1 (snd (run (map Frame dts) (s, showModel e w))) e))"
    using lone_fade_in_frames[of w e m dts s] by (intro impI) (elim conjE)
  show ?thesis
    by (intro conjI;
        (fact tweens_showModel | fact completed_showModel | fact hideAllModels_fields |
         fact tweens_advance | fact completed_advance | fact modelVisible_tweenComplete |
         fact c8 | fact c9 | fact c10 | fact modelVisible_advance | fact c12 | fact c13))
qed

theorem fades_run_to_completion_witness:
  "models (snd (run wheelFading (app_init exampleModels))) ''steam'' =
     Some \<lparr>modelGroup = exampleGroup, modelParts = []\<rparr> \<and>
   currentModelId (snd (run wheelFading (app_init exampleModels))) = Some ''wheel'' \<and>
   tweens (snd (run wheelFading (app_init exampleModels))) =
     [\<lparr>target = ''wheel'', kind = FadeIn, startTime = 1 / 10, duration = 4 / 10\<rparr>] \<and>
   plainLines exampleGroup \<and>
   modelVisible
     (snd (run (map Frame [1 / 10, 2 / 10, 3 / 10])
        (fst (run wheelFading (app_init exampleModels)),
         showModel ''steam'' (snd (run wheelFading (app_init exampleModels))))))
     ''steam'' = Some True \<and>
   modelOpacityIs 1
     (snd (run (map Frame [1 / 10, 2 / 10, 3 / 10])
        (fst (run wheelFading (app_init exampleModels)),
         showModel ''steam'' (snd (run wheelFading (app_init exampleModels))))))
     ''steam'' \<and>
   map (\<lambda>tw. (kind tw, target tw, startTime tw))
     (completed
        (snd (run (map Frame [1 / 10, 2 / 10, 3 / 10])
           (fst (run wheelFading (app_init exampleModels)),
            showModel ''steam'' (snd (run wheelFading (app_init exampleModels))))))) =
     [(FadeIn, ''wheel'', 1 / 10), (FadeOut, ''wheel'', 2 / 10), (FadeIn, ''steam'', 3 / 10)]"
proof -
  define s where "s = fst (run wheelFading (app_init exampleModels))"
  define w where "w = snd (run wheelFading (app_init exampleModels))"
  define m where "m = \<lparr>modelGroup = exampleGroup, modelParts = []\<rparr>"
  note f = wheelFading_facts[folded w_def]
  have pl: "plainLines exampleGroup"
    by (simp add: plainLines_def lineArray_def exampleGroup_def exampleMesh_def)
  have h: "models w ''steam'' = Some m \<and> currentModelId w \<noteq> Some ''steam'' \<and>
      (\<forall>tw \<in> set (tweens w). target tw \<noteq> ''steam'')"
    by (simp add: f m_def)
  have sum: "(1 / 2 :: real) \<le> sum_list [1 / 10, 2 / 10, 3 / 10]"
    by simp
  note t = fades_run_to_completion
      [where e = "''steam''" and w = w and m = m and dts = "[1 / 10, 2 / 10, 3 / 10]" and s = s,
       THEN conjunct2, THEN conjunct2, THEN conjunct2, THEN conjunct2, THEN conjunct2,
       THEN conjunct2, THEN conjunct2, THEN conjunct2, THEN conjunct2, THEN conjunct2,
       THEN conjunct2, THEN conjunct2, rule_format, OF h]
  from t have v: "modelVisible
      (snd (run (map Frame [1 / 10, 2 / 10, 3 / 10]) (s, showModel ''steam'' w))) ''steam'' =
      Some True"
    by (rule conjunct1)
  from t[THEN conjunct2, THEN conjunct2, rule_format, OF sum, THEN conjunct2] pl
  have o: "modelOpacityIs 1
      (snd (run (map Frame [1 / 10, 2 / 10, 3 / 10]) (s, showModel ''steam'' w))) ''steam''"
    by (simp add: m_def)
  have wm: "models w ''wheel'' \<noteq> None"
    using reachable_invariants[of wheelFading exampleModels "''wheel''"] example_start(5)
    by (simp add: w_def)
  have c: "map (\<lambda>tw. (kind tw, target tw, startTime tw))
     (completed (snd (run (map Frame [1 / 10, 2 / 10, 3 / 10]) (s, showModel ''steam'' w)))) =
     [(FadeIn, ''wheel'', 1 / 10), (FadeOut, ''wheel'', 2 / 10), (FadeIn, ''steam'', 3 / 10)]"
    using wm by (simp add: run_def timeline_eval f)
  from f(5) f(1) f(2) pl v o c show ?thesis
    unfolding s_def w_def by simp
qed

text \<open>
  The wheel's fade-out, started on entering \<^verbatim>\<open>steam\<close>, is still running when the
  wheel's fade-in is started a tenth of a second later.  Both completion actions run, and
  the wheel, the active section and the current model, ends hidden.
\<close>

theorem superseded_fade_counterexample:
  "getActiveSection (fst (run crossfadeRun (app_init exampleModels))) = ''wheel'' \<and>
   currentModelId (snd (run crossfadeRun (app_init exampleModels))) = Some ''wheel'' \<and>
   modelVisible (snd (run crossfadeRun (app_init exampleModels))) ''wheel'' = Some False \<and>
   map (\<lambda>tw. (kind tw, target tw, startTime tw))
     (completed (snd (run crossfadeRun (app_init exampleModels)))) =
     [(FadeIn, ''wheel'', 1 / 10), (FadeOut, ''wheel'', 1), (FadeIn, ''steam'', 11 / 10),
      (FadeOut, ''steam'', 11 / 10), (FadeIn, ''wheel'', 12 / 10)] \<and>
   tweens (snd (run crossfadeRun (app_init exampleModels))) = []"
  unfolding crossfade_state
  by (simp add: timeline_eval getActiveSection_def example_start)

section \<open>The frame of setGroupOpacity\<close>
















section \<open>Properties of registerModel\<close>

lemma setupPart_keeps:
  "mesh (fst (setupPart p)) = mesh p"
  "explodeDir (fst (setupPart p)) = explodeDir p"
  "originalPos (fst (setupPart p)) =
     (case originalPos p of Some orig \<Rightarrow> Some orig | None \<Rightarrow> livePosition p)"
  by (simp_all add: setupPart_def computeExplodedPos_def livePosition_def split: option.splits)

lemma setupPart_throw_keeps:
  "\<not> wellFormedPart p \<Longrightarrow> explodedPos (fst (setupPart p)) = explodedPos p"
  by (auto simp: setupPart_def computeExplodedPos_def wellFormedPart_def split: option.splits)

text \<open>
  What \<^verbatim>\<open>setupExplodedView\<close> leaves behind, throw or not: the parts up to and including
  the first one that is not well formed have been through the callback, the parts after
  it have not been visited.
\<close>

lemma setupExplodedView_fst:
  "fst (setupExplodedView ps) =
     map (\<lambda>p. fst (setupPart p)) (take (Suc (length (takeWhile wellFormedPart ps))) ps) @
     drop (Suc (length (takeWhile wellFormedPart ps))) ps"
proof (induction ps)
  case Nil
  show ?case by simp
next
  case (Cons p ps)
  obtain p' r where sp: "setupPart p = (p', r)" by (cases "setupPart p")
  have r: "r = None \<longleftrightarrow> wellFormedPart p"
    using setupPart_ok_iff[of p] sp by simp
  show ?case
  proof (cases "wellFormedPart p")
    case True
    with r sp have "setupPart p = (p', None)" by simp
    with True Cons.IH show ?thesis
      by (simp add: split_beta)
  next
    case False
    with r obtain e where "r = Some e" by (cases r) auto
    with sp False show ?thesis by simp
  qed
qed

lemma setupExplodedView_keeps:
  "length (fst (setupExplodedView ps)) = length ps \<and>
   map mesh (fst (setupExplodedView ps)) = map mesh ps \<and>
   map explodeDir (fst (setupExplodedView ps)) = map explodeDir ps"
proof -
  let ?n = "Suc (length (takeWhile wellFormedPart ps))"
  have "map mesh (fst (setupExplodedView ps)) = map mesh (take ?n ps) @ map mesh (drop ?n ps)"
    unfolding setupExplodedView_fst[of ps] by (simp add: setupPart_keeps o_def)
  moreover
  have "map explodeDir (fst (setupExplodedView ps)) =
      map explodeDir (take ?n ps) @ map explodeDir (drop ?n ps)"
    unfolding setupExplodedView_fst[of ps] by (simp add: setupPart_keeps o_def)
  moreover have "length (fst (setupExplodedView ps)) = length (take ?n ps @ drop ?n ps)"
    unfolding setupExplodedView_fst[of ps] by simp
  ultimately show ?thesis
    by (simp flip: map_append)
qed

text \<open>
  C6, as the code has it.  \<^verbatim>\<open>registerModel\<close> validates nothing and reports nothing.
  Whatever it is given, it first stores the model data under the section id, replacing
  an earlier registration of that id and leaving the registrations of all other ids, the
  active section and the observer as they were.  It then runs \<^verbatim>\<open>setupExplodedView\<close> on
  the parts: it returns normally exactly when the parts field is there and every part is
  well formed, as with an empty list; otherwise it throws a \<^verbatim>\<open>TypeError\<close>, as with a
  missing parts field.  The state after the call is the same in both cases, and the
  registration stays after a throw: under the section id stands the model data given,
  its parts as \<^verbatim>\<open>setupExplodedView\<close> left them.  Those are as many parts as before, with
  the meshes and the explode directions they had; the parts up to and including the first
  that is not well formed have been through the callback, the later ones are as they
  were; and the part that made the callback throw still has the exploded position it had.
\<close>

theorem registerModel_stores_then_may_throw:
  "registerModel k md s =
     (s\<lparr>sectionModels := (sectionModels s)
          (k \<mapsto> (case parts md of None \<Rightarrow> md
                 | Some ps \<Rightarrow> md\<lparr>parts := Some (fst (setupExplodedView ps))\<rparr>))\<rparr>,
      if (case parts md of None \<Rightarrow> False | Some ps \<Rightarrow> list_all wellFormedPart ps)
      then None else Some TypeError) \<and>
   (\<forall>k'. k' \<noteq> k \<longrightarrow> sectionModels (fst (registerModel k md s)) k' = sectionModels s k') \<and>
   activeSection (fst (registerModel k md s)) = activeSection s \<and>
   onSectionChangeCallback (fst (registerModel k md s)) = onSectionChangeCallback s \<and>
   fst (setupExplodedView ps) =
     map (\<lambda>p. fst (setupPart p)) (take (Suc (length (takeWhile wellFormedPart ps))) ps) @
     drop (Suc (length (takeWhile wellFormedPart ps))) ps \<and>
   length (fst (setupExplodedView ps)) = length ps \<and>
   map mesh (fst (setupExplodedView ps)) = map mesh ps \<and>
   map explodeDir (fst (setupExplodedView ps)) = map explodeDir ps \<and>
   mesh (fst (setupPart p)) = mesh p \<and>
   explodeDir (fst (setupPart p)) = explodeDir p \<and>
   originalPos (fst (setupPart p)) =
     (case originalPos p of Some orig \<Rightarrow> Some orig | None \<Rightarrow> livePosition p) \<and>
   (\<not> wellFormedPart p \<longrightarrow> explodedPos (fst (setupPart p)) = explodedPos p) \<and>
   registerModel k \<lparr>parts = Some []\<rparr> s =
     (s\<lparr>sectionModels := (sectionModels s)(k \<mapsto> \<lparr>parts = Some []\<rparr>)\<rparr>, None) \<and>
   registerModel k \<lparr>parts = None\<rparr> s =
     (s\<lparr>sectionModels := (sectionModels s)(k \<mapsto> \<lparr>parts = None\<rparr>)\<rparr>, Some TypeError)"
proof -
  have err: "snd (setupExplodedView qs) =
      (if list_all wellFormedPart qs then None else Some TypeError)" for qs
  proof (cases "snd (setupExplodedView qs)")
    case None
    then show ?thesis using setupExplodedView_ok_iff[of qs] by simp
  next
    case (Some e)
    then have "\<not> list_all wellFormedPart qs"
      using setupExplodedView_ok_iff[of qs] by simp
    with Some show ?thesis by (cases e) simp
  qed
  have full: "registerModel k md s =
     (s\<lparr>sectionModels := (sectionModels s)
          (k \<mapsto> (case parts md of None \<Rightarrow> md
                 | Some ps \<Rightarrow> md\<lparr>parts := Some (fst (setupExplodedView ps))\<rparr>))\<rparr>,
      if (case parts md of None \<Rightarrow> False | Some ps \<Rightarrow> list_all wellFormedPart ps)
      then None else Some TypeError)"
    by (simp add: registerModel_def split_beta err split: option.splits)
  have others: "\<forall>k'. k' \<noteq> k \<longrightarrow>
      sectionModels (fst (registerModel k md s)) k' = sectionModels s k'"
    unfolding full by simp
  have act: "activeSection (fst (registerModel k md s)) = activeSection s"
    unfolding full by simp
  have cb: "onSectionChangeCallback (fst (registerModel k md s)) = onSectionChangeCallback s"
    unfolding full by simp
  have inst: "registerModel k \<lparr>parts = Some []\<rparr> s =
       (s\<lparr>sectionModels := (sectionModels s)(k \<mapsto> \<lparr>parts = Some []\<rparr>)\<rparr>, None)"
    "registerModel k \<lparr>parts = None\<rparr> s =
       (s\<lparr>sectionModels := (sectionModels s)(k \<mapsto> \<lparr>parts = None\<rparr>)\<rparr>, Some TypeError)"
    by (simp_all add: registerModel_def)
  show ?thesis
    using full others act cb inst setupExplodedView_fst[of ps] setupExplodedView_keeps[of ps]
      setupPart_keeps[of p] setupPart_throw_keeps[of p]
    by blast
qed

theorem registerModel_stores_then_may_throw_witness:
  "''wheel'' \<noteq> ''steam'' \<and> \<not> wellFormedPart bareMeshPart \<and>
   registerModel ''steam'' \<lparr>parts = Some [rimPart, bareMeshPart, hubCapPart]\<rparr>
       (fst (registerModel ''wheel'' \<lparr>parts = Some [rimPart]\<rparr>
          (scroll_init :: unit scroll_state))) =
     ((scroll_init :: unit scroll_state)\<lparr>sectionModels :=
        [''wheel'' \<mapsto> \<lparr>parts = Some [rimPart\<lparr>explodedPos := Some (Vector3 0 0 (8 / 10))\<rparr>]\<rparr>,
         ''steam'' \<mapsto>
           \<lparr>parts = Some [rimPart\<lparr>explodedPos := Some (Vector3 0 0 (8 / 10))\<rparr>,
                          bareMeshPart\<lparr>originalPos := Some (Vector3 0 0 0)\<rparr>,
                          hubCapPart]\<rparr>]\<rparr>,
      Some TypeError) \<and>
   sectionModels
     (fst (registerModel ''steam'' \<lparr>parts = Some [rimPart, bareMeshPart, hubCapPart]\<rparr>
        (fst (registerModel ''wheel'' \<lparr>parts = Some [rimPart]\<rparr>
           (scroll_init :: unit scroll_state))))) ''wheel'' =
     Some \<lparr>parts = Some [rimPart\<lparr>explodedPos := Some (Vector3 0 0 (8 / 10))\<rparr>]\<rparr> \<and>
   explodedPos (fst (setupPart bareMeshPart)) = None"
proof -
  define s1 where
    "s1 = fst (registerModel ''wheel'' \<lparr>parts = Some [rimPart]\<rparr> (scroll_init :: unit scroll_state))"
  define md where "md = \<lparr>parts = Some [rimPart, bareMeshPart, hubCapPart]\<rparr>"
  have ne: "''wheel'' \<noteq> ''steam''" by simp
  have nwf: "\<not> wellFormedPart bareMeshPart"
    by (simp add: wellFormedPart_def bareMeshPart_def)
  have s1: "s1 = (scroll_init :: unit scroll_state)\<lparr>sectionModels :=
        [''wheel'' \<mapsto> \<lparr>parts = Some [rimPart\<lparr>explodedPos := Some (Vector3 0 0 (8 / 10))\<rparr>]\<rparr>]\<rparr>"
    by (simp add: s1_def registerModel_def setupPart_def computeExplodedPos_def rimPart_def
        v3_add_def scroll_init_def)
  have ev: "fst (setupExplodedView [rimPart, bareMeshPart, hubCapPart]) =
      [rimPart\<lparr>explodedPos := Some (Vector3 0 0 (8 / 10))\<rparr>,
       bareMeshPart\<lparr>originalPos := Some (Vector3 0 0 0)\<rparr>, hubCapPart]"
    by (simp add: setupPart_def computeExplodedPos_def rimPart_def bareMeshPart_def
        exampleMesh_def v3_add_def)
  note t = registerModel_stores_then_may_throw
      [of "''steam''" md s1 "[rimPart, bareMeshPart, hubCapPart]" bareMeshPart]
  from t[THEN conjunct1] ev nwf
  have r: "registerModel ''steam'' md s1 =
     (s1\<lparr>sectionModels := (sectionModels s1)(''steam'' \<mapsto>
        \<lparr>parts = Some [rimPart\<lparr>explodedPos := Some (Vector3 0 0 (8 / 10))\<rparr>,
                       bareMeshPart\<lparr>originalPos := Some (Vector3 0 0 0)\<rparr>,
                       hubCapPart]\<rparr>)\<rparr>,
      Some TypeError)"
    by (simp add: md_def)
  from t[THEN conjunct2, THEN conjunct1, rule_format, of "''wheel''"] ne
  have w: "sectionModels (fst (registerModel ''steam'' md s1)) ''wheel'' = sectionModels s1 ''wheel''"
    by simp
  from t nwf have x: "explodedPos (fst (setupPart bareMeshPart)) = explodedPos bareMeshPart"
    by blast
  have x': "explodedPos bareMeshPart = None"
    by (simp add: bareMeshPart_def)
  have r': "registerModel ''steam'' md s1 =
     ((scroll_init :: unit scroll_state)\<lparr>sectionModels :=
        [''wheel'' \<mapsto> \<lparr>parts = Some [rimPart\<lparr>explodedPos := Some (Vector3 0 0 (8 / 10))\<rparr>]\<rparr>,
         ''steam'' \<mapsto>
           \<lparr>parts = Some [rimPart\<lparr>explodedPos := Some (Vector3 0 0 (8 / 10))\<rparr>,
                          bareMeshPart\<lparr>originalPos := Some (Vector3 0 0 0)\<rparr>,
                          hubCapPart]\<rparr>]\<rparr>,
      Some TypeError)"
    unfolding r unfolding s1 by simp
  have w': "sectionModels (fst (registerModel ''steam'' md s1)) ''wheel'' =
     Some \<lparr>parts = Some [rimPart\<lparr>explodedPos := Some (Vector3 0 0 (8 / 10))\<rparr>]\<rparr>"
    unfolding w unfolding s1 by simp
  show ?thesis
    using ne nwf r' w' x x' unfolding md_def s1_def by simp
qed

text \<open>
  The call throws on a missing parts field and on a part without \<^verbatim>\<open>explodeDir\<close>, in both
  cases after storing the registration; and an empty parts list replaces the model
  registered before under the same id.
\<close>

theorem registerModel_silent_counterexample:
  "snd (registerModel ''wheel'' \<lparr>parts = None\<rparr> (scroll_init :: unit scroll_state)) =
     Some TypeError \<and>
   sectionModels (fst (registerModel ''wheel'' \<lparr>parts = None\<rparr> (scroll_init :: unit scroll_state)))
     ''wheel'' = Some \<lparr>parts = None\<rparr> \<and>
   sectionModels (scroll_init :: unit scroll_state) ''wheel'' = None \<and>
   snd (registerModel ''wheel'' \<lparr>parts = Some [bareMeshPart]\<rparr> (scroll_init :: unit scroll_state)) =
     Some TypeError \<and>
   sectionModels
     (fst (registerModel ''wheel'' \<lparr>parts = Some []\<rparr>
        (fst (registerModel ''wheel'' \<lparr>parts = Some [rimPart]\<rparr>
           (scroll_init :: unit scroll_state))))) ''wheel'' =
     Some \<lparr>parts = Some []\<rparr>"
  by (simp add: registerModel_def scroll_init_def setupPart_def computeExplodedPos_def
      bareMeshPart_def rimPart_def)

section \<open>Properties of updateExplodedView in double precision\<close>

lemma pow2_powr: "pow2 e = 2 powr (of_int e)"
  by (simp add: pow2_def powr_int)

lemma pow2_pos: "0 < pow2 e"
  by (simp add: pow2_powr)

lemma ulpExp_eq:
  assumes "pow2 e \<le> \<bar>x\<bar>" "\<bar>x\<bar> < pow2 (e + 1)" "- 1022 \<le> e"
  shows "ulpExp x = e - 52"
proof -
  have pos: "0 < \<bar>x\<bar>"
    using assms(1) pow2_pos[of e] by linarith
  have "of_int e \<le> log 2 \<bar>x\<bar>"
    using assms(1) pos by (simp add: le_log_iff pow2_powr)
  moreover have "log 2 \<bar>x\<bar> < of_int e + 1"
    using assms(2) pos by (simp add: log_less_iff pow2_powr)
  ultimately have "\<lfloor>log 2 \<bar>x\<bar>\<rfloor> = e"
    by (simp add: floor_eq_iff)
  with assms(3) show ?thesis
    by (simp add: ulpExp_def)
qed

lemma roundEven_near:
  assumes a: "of_int n - 1 / 2 < y" and b: "y < of_int n + 1 / 2"
  shows "roundEven y = n"
proof (cases "of_int n \<le> y")
  case True
  with b have "\<lfloor>y\<rfloor> = n" by (simp add: floor_eq_iff)
  with b show ?thesis by (simp add: roundEven_def Let_def)
next
  case False
  with a have "\<lfloor>y\<rfloor> = n - 1" by (simp add: floor_eq_iff)
  with a False show ?thesis by (simp add: roundEven_def Let_def)
qed

lemma roundEven_tie:
  assumes y: "y = of_int n + 1 / 2"
  shows "roundEven y = (if even n then n else n + 1)"
proof -
  from y have "\<lfloor>y\<rfloor> = n" by (simp add: floor_eq_iff)
  with y show ?thesis by (simp add: roundEven_def Let_def)
qed

lemma fl_0: "fl 0 = 0"
  by (simp add: fl_def roundEven_def)

text \<open>The rounding of a number whose binade is known.\<close>

lemma fl_near:
  assumes "pow2 e \<le> \<bar>x\<bar>" "\<bar>x\<bar> < pow2 (e + 1)" "- 1022 \<le> e"
    and "of_int n - 1 / 2 < x / pow2 (e - 52)" "x / pow2 (e - 52) < of_int n + 1 / 2"
  shows "fl x = of_int n * pow2 (e - 52)"
  using roundEven_near[OF assms(4,5)] ulpExp_eq[OF assms(1-3)] by (simp add: fl_def)

lemma fl_tie:
  assumes "pow2 e \<le> \<bar>x\<bar>" "\<bar>x\<bar> < pow2 (e + 1)" "- 1022 \<le> e"
    and "x / pow2 (e - 52) = of_int n + 1 / 2"
  shows "fl x = of_int (if even n then n else n + 1) * pow2 (e - 52)"
  using roundEven_tie[OF assms(4)] ulpExp_eq[OF assms(1-3)] by (simp add: fl_def)

lemma fl_values:
  "fl 1 = 1" "fl (- 2) = - 2" "fl 2 = 2" "fl (1 / 2) = 1 / 2" "fl (3 / 2) = 3 / 2"
  "fl (1 / 4) = 1 / 4" "fl (1 / 16) = 1 / 16" "fl (3 / 32) = 3 / 32" "fl (19 / 32) = 19 / 32"
  using fl_near[of 0 1 4503599627370496] fl_near[of 1 "- 2" "- 4503599627370496"]
    fl_near[of 1 2 4503599627370496] fl_near[of "- 1" "1 / 2" 4503599627370496]
    fl_near[of 0 "3 / 2" 6755399441055744] fl_near[of "- 2" "1 / 4" 4503599627370496]
    fl_near[of "- 4" "1 / 16" 4503599627370496] fl_near[of "- 4" "3 / 32" 6755399441055744]
    fl_near[of "- 1" "19 / 32" 5348024557502464]
  by (simp_all add: pow2_def)

lemma eased64_clamp_le0: "t \<le> 0 \<Longrightarrow> eased64 cube (clamp01 t) = 0"
  by (simp add: eased64_def clamp01_def max_def min_def fl_0)

lemma eased64_clamp_ge1: "1 \<le> t \<Longrightarrow> cube 0 = 0 \<Longrightarrow> eased64 cube (clamp01 t) = 1"
  by (simp add: eased64_def clamp01_def max_def min_def fl_0 fl_values)

lemma lerp64_0: "fl a = a \<Longrightarrow> lerp64 a b 0 = a"
  by (simp add: lerp64_def fl_0)

lemma lerp64_1: "fl (b - a) = b - a \<Longrightarrow> fl b = b \<Longrightarrow> lerp64 a b 1 = b"
  by (simp add: lerp64_def)

lemma lerpVectors64_formula:
  "lerpVectors64 a b e = v3_fl (v3_add a (v3_fl (v3_scale (v3_fl (v3_sub b a)) e)))"
  by (simp add: lerpVectors64_def lerp64_def v3_fl_def v3_add_def v3_scale_def v3_sub_def)

lemma lerpVectors64_0: "doubleVec a \<Longrightarrow> lerpVectors64 a b 0 = a"
  by (cases a) (simp add: lerpVectors64_def lerp64_0 doubleVec_def isDouble_def)

lemma lerpVectors64_1:
  "doubleVec b \<Longrightarrow> doubleVec (v3_sub b a) \<Longrightarrow> lerpVectors64 a b 1 = b"
  by (cases b) (simp add: lerpVectors64_def lerp64_1 doubleVec_def isDouble_def v3_sub_def)

lemma updatePart64_complete:
  "mesh p = Some m \<Longrightarrow> originalPos p = Some orig \<Longrightarrow> explodedPos p = Some expl \<Longrightarrow>
   updatePart64 e p = p\<lparr>mesh := Some (set_position (lerpVectors64 orig expl e) m)\<rparr>"
  by (simp add: updatePart64_def)

lemma updatePart64_idem: "updatePart64 e (updatePart64 e p) = updatePart64 e p"
  by (auto simp: updatePart64_def set_position_twice split: option.splits)

lemma updateExplodedView64_idem:
  "updateExplodedView64 cube (updateExplodedView64 cube ps t) t = updateExplodedView64 cube ps t"
  by (simp add: updateExplodedView64_def Let_def updatePart64_idem)

lemma updateExplodedView64_nth:
  "i < length ps \<Longrightarrow>
   updateExplodedView64 cube ps t ! i = updatePart64 (eased64 cube (clamp01 t)) (ps ! i)"
  by (simp add: updateExplodedView64_def Let_def)

lemma length_updateExplodedView64: "length (updateExplodedView64 cube ps t) = length ps"
  by (simp add: updateExplodedView64_def Let_def)

text \<open>
  C4, as the code has it.  On a parts list whose parts each have a mesh, an
  \<^verbatim>\<open>originalPos\<close> and an \<^verbatim>\<open>explodedPos\<close>, the coordinates being doubles, and for every raw
  progress \<^verbatim>\<open>t\<close>, in or out of the unit interval, \<^verbatim>\<open>updateExplodedView\<close> changes each part in
  its mesh position only, which it sets to
  \<^verbatim>\<open>originalPos + (explodedPos - originalPos) * eased (clamp t)\<close> as evaluated in doubles:
  the difference, the product and the sum each rounded, and \<^verbatim>\<open>eased\<close> the cubic
  ease-in-out evaluated in doubles.  The eased value is exactly 0 for \<^verbatim>\<open>t \<le> 0\<close> and
  exactly 1 for \<^verbatim>\<open>t \<ge> 1\<close>.  So \<^verbatim>\<open>t \<le> 0\<close> gives \<^verbatim>\<open>originalPos\<close> exactly; \<^verbatim>\<open>t \<ge> 1\<close> gives
  \<^verbatim>\<open>originalPos + (explodedPos - originalPos)\<close> as rounded, which is \<^verbatim>\<open>explodedPos\<close> when
  the difference is a double; and a second call with the same \<^verbatim>\<open>t\<close> changes nothing.
\<close>

theorem updateExplodedView_interpolates:
  assumes "\<forall>p \<in> set ps. \<exists>m orig expl.
             mesh p = Some m \<and> originalPos p = Some orig \<and> explodedPos p = Some expl \<and>
             doubleVec orig \<and> doubleVec expl"
  shows "length (updateExplodedView64 cube ps t) = length ps \<and>
         (\<forall>i < length ps. \<exists>m orig expl.
            mesh (ps ! i) = Some m \<and> originalPos (ps ! i) = Some orig \<and>
            explodedPos (ps ! i) = Some expl \<and>
            updateExplodedView64 cube ps t ! i =
              (ps ! i)\<lparr>mesh := Some (set_position
                 (v3_fl (v3_add orig
                    (v3_fl (v3_scale (v3_fl (v3_sub expl orig)) (eased64 cube (clamp01 t))))))
                 m)\<rparr> \<and>
            (t \<le> 0 \<longrightarrow> livePosition (updateExplodedView64 cube ps t ! i) = Some orig) \<and>
            (1 \<le> t \<and> cube 0 = 0 \<longrightarrow>
               livePosition (updateExplodedView64 cube ps t ! i) =
                 Some (v3_fl (v3_add orig (v3_fl (v3_scale (v3_fl (v3_sub expl orig)) 1))))) \<and>
            (1 \<le> t \<and> cube 0 = 0 \<and> doubleVec (v3_sub expl orig) \<longrightarrow>
               livePosition (updateExplodedView64 cube ps t ! i) = Some expl)) \<and>
         (t \<le> 0 \<longrightarrow> eased64 cube (clamp01 t) = 0) \<and>
         (1 \<le> t \<and> cube 0 = 0 \<longrightarrow> eased64 cube (clamp01 t) = 1) \<and>
         updateExplodedView64 cube (updateExplodedView64 cube ps t) t =
           updateExplodedView64 cube ps t"
proof -
  let ?e = "eased64 cube (clamp01 t)"
  have "\<exists>m orig expl.
            mesh (ps ! i) = Some m \<and> originalPos (ps ! i) = Some orig \<and>
            explodedPos (ps ! i) = Some expl \<and>
            updateExplodedView64 cube ps t ! i =
              (ps ! i)\<lparr>mesh := Some (set_position
                 (v3_fl (v3_add orig (v3_fl (v3_scale (v3_fl (v3_sub expl orig)) ?e)))) m)\<rparr> \<and>
            (t \<le> 0 \<longrightarrow> livePosition (updateExplodedView64 cube ps t ! i) = Some orig) \<and>
            (1 \<le> t \<and> cube 0 = 0 \<longrightarrow>
               livePosition (updateExplodedView64 cube ps t ! i) =
                 Some (v3_fl (v3_add orig (v3_fl (v3_scale (v3_fl (v3_sub expl orig)) 1))))) \<and>
            (1 \<le> t \<and> cube 0 = 0 \<and> doubleVec (v3_sub expl orig) \<longrightarrow>
               livePosition (updateExplodedView64 cube ps t ! i) = Some expl)"
    if i: "i < length ps" for i
  proof -
    from i assms obtain m orig expl where
      p: "mesh (ps ! i) = Some m" "originalPos (ps ! i) = Some orig"
         "explodedPos (ps ! i) = Some expl"
      and d: "doubleVec orig" "doubleVec expl"
      by (meson nth_mem)
    have u: "updateExplodedView64 cube ps t ! i =
        (ps ! i)\<lparr>mesh := Some (set_position (lerpVectors64 orig expl ?e) m)\<rparr>"
      using i p by (simp add: updateExplodedView64_nth updatePart64_complete)
    have l: "livePosition (updateExplodedView64 cube ps t ! i) = Some (lerpVectors64 orig expl ?e)"
      by (simp add: u livePosition_def position_set_position)
    have lo: "t \<le> 0 \<longrightarrow> livePosition (updateExplodedView64 cube ps t ! i) = Some orig"
      using d(1) by (simp add: l eased64_clamp_le0 lerpVectors64_0)
    have hi: "1 \<le> t \<and> cube 0 = 0 \<longrightarrow>
        livePosition (updateExplodedView64 cube ps t ! i) =
          Some (v3_fl (v3_add orig (v3_fl (v3_scale (v3_fl (v3_sub expl orig)) 1))))"
      by (simp add: l eased64_clamp_ge1 lerpVectors64_formula)
    have hi': "1 \<le> t \<and> cube 0 = 0 \<and> doubleVec (v3_sub expl orig) \<longrightarrow>
        livePosition (updateExplodedView64 cube ps t ! i) = Some expl"
      using d(2) by (simp add: l eased64_clamp_ge1 lerpVectors64_1)
    from p u lo hi hi' show ?thesis
      unfolding lerpVectors64_formula by blast
  qed
  then show ?thesis
    by (simp add: length_updateExplodedView64 updateExplodedView64_idem eased64_clamp_le0
        eased64_clamp_ge1)
qed

lemma doubleVec_examples:
  "doubleVec (Vector3 0 (1 / 2) 0)" "doubleVec (Vector3 0 2 0)" "doubleVec (Vector3 0 (3 / 2) 0)"
  by (simp_all add: doubleVec_def isDouble_def fl_0 fl_values)

lemma cube64_0: "cube64 0 = 0"
  by (simp add: cube64_def fl_0)

theorem updateExplodedView_interpolates_witness:
  "originalPos boilerReady = Some (Vector3 0 (1 / 2) 0) \<and>
   explodedPos boilerReady = Some (Vector3 0 2 0) \<and>
   doubleVec (Vector3 0 (1 / 2) 0) \<and> doubleVec (Vector3 0 2 0) \<and>
   doubleVec (v3_sub (Vector3 0 2 0) (Vector3 0 (1 / 2) 0)) \<and> cube64 0 = 0 \<and>
   livePosition (updateExplodedView64 cube64 [boilerReady] (- 2 / 10) ! 0) =
     Some (Vector3 0 (1 / 2) 0) \<and>
   livePosition (updateExplodedView64 cube64 [boilerReady] (14 / 10) ! 0) = Some (Vector3 0 2 0) \<and>
   updateExplodedView64 cube64 [boilerReady] (1 / 4) ! 0 =
     boilerReady\<lparr>mesh := Some (exampleMesh (Vector3 0 (19 / 32) 0))\<rparr>"
proof -
  have f: "originalPos ([boilerReady] ! 0) = Some (Vector3 0 (1 / 2) 0)"
          "explodedPos ([boilerReady] ! 0) = Some (Vector3 0 2 0)"
          "mesh ([boilerReady] ! 0) = Some (exampleMesh (Vector3 0 (1 / 2) 0))"
    by (simp_all add: boilerReady_def)
  have h: "\<forall>p \<in> set [boilerReady]. \<exists>m orig expl.
             mesh p = Some m \<and> originalPos p = Some orig \<and> explodedPos p = Some expl \<and>
             doubleVec orig \<and> doubleVec expl"
    using doubleVec_examples by (simp add: boilerReady_def)
  have dd: "doubleVec (v3_sub (Vector3 0 2 0) (Vector3 0 (1 / 2) 0))"
    using doubleVec_examples(3) by (simp add: v3_sub_def)
  have i: "0 < length [boilerReady]"
    by simp
  have lo: "livePosition (updateExplodedView64 cube64 [boilerReady] (- 2 / 10) ! 0) =
              Some (Vector3 0 (1 / 2) 0)"
  proof -
    have "(- 2 / 10 :: real) \<le> 0" by simp
    with updateExplodedView_interpolates[OF h, of cube64 "- 2 / 10"] i f(1) show ?thesis
      by (metis option.inject)
  qed
  have hi: "livePosition (updateExplodedView64 cube64 [boilerReady] (14 / 10) ! 0) =
              Some (Vector3 0 2 0)"
  proof -
    have "(1 :: real) \<le> 14 / 10" by simp
    with updateExplodedView_interpolates[OF h, of cube64 "14 / 10"] i f(1,2) dd cube64_0
    show ?thesis
      by (metis option.inject)
  qed
  have e: "eased64 cube64 (clamp01 (1 / 4)) = 1 / 16"
    by (simp add: eased64_def clamp01_def fl_values)
  have mid: "updateExplodedView64 cube64 [boilerReady] (1 / 4) ! 0 =
     boilerReady\<lparr>mesh := Some (exampleMesh (Vector3 0 (19 / 32) 0))\<rparr>"
  proof -
    from updateExplodedView_interpolates[OF h, of cube64 "1 / 4"] i f
    have "updateExplodedView64 cube64 [boilerReady] (1 / 4) ! 0 =
            ([boilerReady] ! 0)\<lparr>mesh := Some (set_position
               (v3_fl (v3_add (Vector3 0 (1 / 2) 0)
                  (v3_fl (v3_scale (v3_fl (v3_sub (Vector3 0 2 0) (Vector3 0 (1 / 2) 0)))
                     (eased64 cube64 (clamp01 (1 / 4)))))))
               (exampleMesh (Vector3 0 (1 / 2) 0)))\<rparr>"
      by (metis option.inject)
    then show ?thesis
      by (simp add: e v3_add_def v3_scale_def v3_sub_def v3_fl_def exampleMesh_def fl_0
          fl_values)
  qed
  from f lo mid hi dd doubleVec_examples cube64_0 show ?thesis by simp
qed

text \<open>
  The part at -0.86 pushed by 1.86 has its \<^verbatim>\<open>explodedPos\<close> at 1, the rounded sum.  At
  progress 1 the difference 1.86 is rounded down in its last bit, and the part lands one
  step of \<^verbatim>\<open>2 ^ -53\<close> short of its \<^verbatim>\<open>explodedPos\<close>; in exact arithmetic it would land
  on it.
\<close>

theorem updateExplodedView_rounding_counterexample:
  "fl (- 86 / 100) = - 7746191359077253 / 9007199254740992 \<and>
   fl (186 / 100) = 8376695306909123 / 4503599627370496 \<and>
   map explodedPos [roundingPart] =
     [Some (v3_add64 (Vector3 (- 7746191359077253 / 9007199254740992) 0 0)
                     (Vector3 (8376695306909123 / 4503599627370496) 0 0))] \<and>
   map explodedPos [roundingPart] = [Some (Vector3 1 0 0)] \<and>
   map livePosition (updateExplodedView64 cube64 [roundingPart] 1) =
     [Some (Vector3 (9007199254740991 / 9007199254740992) 0 0)] \<and>
   map livePosition (updateExplodedView [roundingPart] 1) = [Some (Vector3 1 0 0)]"
proof -
  define ox :: real where "ox = - 7746191359077253 / 9007199254740992"
  define d :: real where "d = 8376695306909123 / 4503599627370496"
  define df :: real where "df = 8376695306909122 / 4503599627370496"
  define r :: real where "r = 9007199254740991 / 9007199254740992"
  have a: "fl (- 86 / 100) = ox"
    unfolding ox_def using fl_near[of "- 1" "- 86 / 100" "- 7746191359077253"]
    by (simp add: pow2_def)
  have b: "fl (186 / 100) = d"
    unfolding d_def using fl_near[of 0 "186 / 100" "8376695306909123"]
    by (simp add: pow2_def)
  have c: "fl (ox + d) = 1"
    unfolding ox_def d_def
    using fl_tie[of 0 "- 7746191359077253 / 9007199254740992 + 8376695306909123 / 4503599627370496"
        4503599627370496]
    by (simp add: pow2_def)
  have s1: "fl (1 - ox) = df"
    unfolding ox_def df_def
    using fl_tie[of 0 "1 - (- 7746191359077253 / 9007199254740992)" 8376695306909122]
    by (simp add: pow2_def)
  have s2: "fl df = df"
    unfolding df_def
    using fl_near[of 0 "8376695306909122 / 4503599627370496" 8376695306909122]
    by (simp add: pow2_def)
  have s3: "fl (ox + df) = r"
    unfolding ox_def df_def r_def
    using fl_near[of "- 1"
        "- 7746191359077253 / 9007199254740992 + 8376695306909122 / 4503599627370496"
        9007199254740991]
    by (simp add: pow2_def)
  have l: "lerpVectors64 (Vector3 ox 0 0) (Vector3 1 0 0) 1 = Vector3 r 0 0"
    by (simp add: lerpVectors64_def lerp64_def s1 s2 s3 fl_0)
  have e: "eased64 cube64 (clamp01 1) = 1"
    by (rule eased64_clamp_ge1) (simp_all add: cube64_0)
  have rp: "roundingPart =
      \<lparr>mesh = Some (exampleMesh (Vector3 ox 0 0)), originalPos = Some (Vector3 ox 0 0),
       explodeDir = Some (Vector3 d 0 0), explodedPos = Some (Vector3 1 0 0)\<rparr>"
    by (simp add: roundingPart_def ox_def d_def)
  have x: "map explodedPos [roundingPart] = [Some (v3_add64 (Vector3 ox 0 0) (Vector3 d 0 0))]"
    by (simp add: rp v3_add64_def c fl_0)
  have y: "map livePosition (updateExplodedView64 cube64 [roundingPart] 1) =
      [Some (Vector3 r 0 0)]"
    by (simp add: updateExplodedView64_def Let_def e rp updatePart64_def l livePosition_def
        position_set_position)
  have z: "map livePosition (updateExplodedView [roundingPart] 1) = [Some (Vector3 1 0 0)]"
    by (simp add: updateExplodedView_def Let_def eased_clamp_ge1 rp updatePart_def
        lerpVectors_1 livePosition_def position_set_position)
  have w: "map explodedPos [roundingPart] = [Some (Vector3 1 0 0)]"
    by (simp add: rp)
  from a b x w y z show ?thesis
    unfolding ox_def d_def r_def by (intro conjI)
qed

section \<open>updateExplodedView before setupExplodedView\<close>

lemma lerpVectors_same: "lerpVectors a a e = a"
  by (cases a) (simp add: lerpVectors_def)

lemma updatePart_fallback:
  assumes "explodedPos p = None" "livePosition p = originalPos p"
  shows "livePosition (updatePart e (p\<lparr>explodedPos := originalPos p\<rparr>)) = livePosition p"
proof (cases "mesh p")
  case None
  then show ?thesis
    by (simp add: updatePart_def livePosition_def)
next
  case (Some m)
  with assms(2) have "originalPos p = Some (position m)"
    by (simp add: livePosition_def)
  with Some show ?thesis
    by (simp add: updatePart_def livePosition_def lerpVectors_same position_set_position)
qed

lemma updatePart64_skip:
  "mesh p = None \<or> originalPos p = None \<or> explodedPos p = None \<Longrightarrow> updatePart64 e p = p"
  by (auto simp: updatePart64_def split: option.splits)

lemma lerpVectors64_same: "doubleVec a \<Longrightarrow> lerpVectors64 a a e = a"
  by (cases a) (simp add: lerpVectors64_def lerp64_def doubleVec_def isDouble_def fl_0)

lemma updatePart64_fallback:
  assumes "explodedPos p = None" "livePosition p = originalPos p"
    and "\<forall>orig. originalPos p = Some orig \<longrightarrow> doubleVec orig"
  shows "livePosition (updatePart64 e (p\<lparr>explodedPos := originalPos p\<rparr>)) = livePosition p"
proof (cases "mesh p")
  case None
  then show ?thesis
    by (simp add: updatePart64_def livePosition_def)
next
  case (Some m)
  with assms(2) have o: "originalPos p = Some (position m)"
    by (simp add: livePosition_def)
  with assms(3) have "doubleVec (position m)"
    by simp
  with Some o show ?thesis
    by (simp add: updatePart64_def livePosition_def lerpVectors64_same position_set_position)
qed

text \<open>
  C7.  \<^verbatim>\<open>updateExplodedView\<close> never fails, and it skips every part that has no
  \<^verbatim>\<open>explodedPos\<close>, leaving it exactly as it was.  So on a parts list on which
  \<^verbatim>\<open>setupExplodedView\<close> has not yet run, where no part has an \<^verbatim>\<open>explodedPos\<close> and every
  part stands at its \<^verbatim>\<open>originalPos\<close>, as \<^verbatim>\<open>models.js\<close> builds the parts, the call moves
  nothing, for every progress value: it returns the list as it was, every part's live
  position is its \<^verbatim>\<open>originalPos\<close>, and these are the positions that the call gives when
  the \<^verbatim>\<open>explodedPos\<close> of every part is taken to be its \<^verbatim>\<open>originalPos\<close>.  The same holds
  of the call in double precision, the coordinates being doubles.
\<close>

theorem updateExplodedView_before_setup:
  "length (updateExplodedView ps t) = length ps \<and>
   (\<forall>i < length ps. explodedPos (ps ! i) = None \<longrightarrow> updateExplodedView ps t ! i = ps ! i) \<and>
   ((\<forall>p \<in> set ps. explodedPos p = None \<and> livePosition p = originalPos p) \<longrightarrow>
      updateExplodedView ps t = ps \<and>
      (\<forall>p \<in> set (updateExplodedView ps t). livePosition p = originalPos p) \<and>
      map livePosition (updateExplodedView ps t) =
        map livePosition (updateExplodedView (map (\<lambda>p. p\<lparr>explodedPos := originalPos p\<rparr>) ps) t)) \<and>
   ((\<forall>p \<in> set ps. explodedPos p = None \<and> livePosition p = originalPos p \<and>
        (\<forall>orig. originalPos p = Some orig \<longrightarrow> doubleVec orig)) \<longrightarrow>
      updateExplodedView64 cube ps t = ps \<and>
      map livePosition (updateExplodedView64 cube ps t) =
        map livePosition
          (updateExplodedView64 cube (map (\<lambda>p. p\<lparr>explodedPos := originalPos p\<rparr>) ps) t))"
proof -
  have d: "updateExplodedView64 cube ps t = ps \<and>
      map livePosition (updateExplodedView64 cube ps t) =
        map livePosition
          (updateExplodedView64 cube (map (\<lambda>p. p\<lparr>explodedPos := originalPos p\<rparr>) ps) t)"
    if h: "\<forall>p \<in> set ps. explodedPos p = None \<and> livePosition p = originalPos p \<and>
        (\<forall>orig. originalPos p = Some orig \<longrightarrow> doubleVec orig)"
  proof -
    have same: "updateExplodedView64 cube ps t = ps"
      using h by (simp add: updateExplodedView64_def Let_def updatePart64_skip map_idI)
    have "map livePosition
        (updateExplodedView64 cube (map (\<lambda>p. p\<lparr>explodedPos := originalPos p\<rparr>) ps) t) =
        map livePosition ps"
      using h by (simp add: updateExplodedView64_def Let_def updatePart64_fallback)
    with same show ?thesis by simp
  qed
  have a: "\<forall>i < length ps. explodedPos (ps ! i) = None \<longrightarrow> updateExplodedView ps t ! i = ps ! i"
    by (simp add: updateExplodedView_nth updatePart_skip)
  have b: "updateExplodedView ps t = ps \<and>
      (\<forall>p \<in> set (updateExplodedView ps t). livePosition p = originalPos p) \<and>
      map livePosition (updateExplodedView ps t) =
        map livePosition (updateExplodedView (map (\<lambda>p. p\<lparr>explodedPos := originalPos p\<rparr>) ps) t)"
    if h: "\<forall>p \<in> set ps. explodedPos p = None \<and> livePosition p = originalPos p"
  proof -
    have same: "updateExplodedView ps t = ps"
      using h by (simp add: updateExplodedView_def Let_def updatePart_skip map_idI)
    have "map livePosition (updateExplodedView (map (\<lambda>p. p\<lparr>explodedPos := originalPos p\<rparr>) ps) t) =
        map livePosition ps"
      using h by (simp add: updateExplodedView_def Let_def updatePart_fallback)
    with same h show ?thesis by simp
  qed
  have c: "length (updateExplodedView ps t) = length ps"
    by (rule length_updateExplodedView)
  from a b c d show ?thesis
    by blast
qed

theorem updateExplodedView_before_setup_witness:
  "explodedPos rimPart = None \<and> livePosition rimPart = originalPos rimPart \<and>
   explodedPos hubCapPart = None \<and> livePosition hubCapPart = originalPos hubCapPart \<and>
   updateExplodedView [rimPart, hubCapPart] (1 / 2) = [rimPart, hubCapPart] \<and>
   map livePosition (updateExplodedView [rimPart, hubCapPart] (1 / 2)) =
     [Some (Vector3 0 0 0), Some (Vector3 0 0 (18 / 100))] \<and>
   map livePosition (updateExplodedView
       [rimPart\<lparr>explodedPos := Some (Vector3 0 0 0)\<rparr>,
        hubCapPart\<lparr>explodedPos := Some (Vector3 0 0 (18 / 100))\<rparr>] (1 / 2)) =
     [Some (Vector3 0 0 0), Some (Vector3 0 0 (18 / 100))] \<and>
   doubleVec (Vector3 0 0 0) \<and>
   updateExplodedView64 cube64 [rimPart] (1 / 2) = [rimPart] \<and>
   map livePosition
     (updateExplodedView64 cube64 [rimPart\<lparr>explodedPos := Some (Vector3 0 0 0)\<rparr>] (1 / 2)) =
     [Some (Vector3 0 0 0)]"
proof -
  have f: "explodedPos rimPart = None" "livePosition rimPart = originalPos rimPart"
    "explodedPos hubCapPart = None" "livePosition hubCapPart = originalPos hubCapPart"
    "originalPos rimPart = Some (Vector3 0 0 0)"
    "originalPos hubCapPart = Some (Vector3 0 0 (18 / 100))"
    by (simp_all add: rimPart_def hubCapPart_def livePosition_def exampleMesh_def)
  then have h: "\<forall>p \<in> set [rimPart, hubCapPart].
      explodedPos p = None \<and> livePosition p = originalPos p"
    by simp
  from updateExplodedView_before_setup[of "[rimPart, hubCapPart]" "1 / 2"] h
  have t: "updateExplodedView [rimPart, hubCapPart] (1 / 2) = [rimPart, hubCapPart] \<and>
      (\<forall>p \<in> set (updateExplodedView [rimPart, hubCapPart] (1 / 2)).
          livePosition p = originalPos p) \<and>
      map livePosition (updateExplodedView [rimPart, hubCapPart] (1 / 2)) =
        map livePosition (updateExplodedView
          (map (\<lambda>p. p\<lparr>explodedPos := originalPos p\<rparr>) [rimPart, hubCapPart]) (1 / 2))"
    by blast
  note same = t[THEN conjunct1]
  have "map livePosition (updateExplodedView
       (map (\<lambda>p. p\<lparr>explodedPos := originalPos p\<rparr>) [rimPart, hubCapPart]) (1 / 2)) =
     map livePosition [rimPart, hubCapPart]"
    using t[THEN conjunct2, THEN conjunct2, symmetric] unfolding same .
  then have fb: "map livePosition (updateExplodedView
       [rimPart\<lparr>explodedPos := Some (Vector3 0 0 0)\<rparr>,
        hubCapPart\<lparr>explodedPos := Some (Vector3 0 0 (18 / 100))\<rparr>] (1 / 2)) =
     [Some (Vector3 0 0 0), Some (Vector3 0 0 (18 / 100))]"
    by (simp add: f)
  have dv: "doubleVec (Vector3 0 0 0)"
    by (simp add: doubleVec_def isDouble_def fl_0)
  with f have h64: "\<forall>p \<in> set [rimPart]. explodedPos p = None \<and>
      livePosition p = originalPos p \<and> (\<forall>orig. originalPos p = Some orig \<longrightarrow> doubleVec orig)"
    by simp
  from updateExplodedView_before_setup[of "[rimPart]" "1 / 2" cube64] h64
  have t64: "updateExplodedView64 cube64 [rimPart] (1 / 2) = [rimPart] \<and>
      map livePosition (updateExplodedView64 cube64 [rimPart] (1 / 2)) =
        map livePosition
          (updateExplodedView64 cube64 (map (\<lambda>p. p\<lparr>explodedPos := originalPos p\<rparr>) [rimPart])
             (1 / 2))"
    by blast
  note same64 = t64[THEN conjunct1]
  have "map livePosition
      (updateExplodedView64 cube64 (map (\<lambda>p. p\<lparr>explodedPos := originalPos p\<rparr>) [rimPart])
         (1 / 2)) = map livePosition [rimPart]"
    using t64[THEN conjunct2, symmetric] unfolding same64 .
  then have fb64: "map livePosition
      (updateExplodedView64 cube64 [rimPart\<lparr>explodedPos := Some (Vector3 0 0 0)\<rparr>] (1 / 2)) =
      [Some (Vector3 0 0 0)]"
    by (simp add: f)
  from same fb f dv same64 fb64 show ?thesis by simp
qed

end
